theory Spec2Isabelle
  imports Main
begin

section \<open>JavaScript values read by the code\<close>

text \<open>
  A string-valued property of an untyped JSON document is \<open>string | undefined | null\<close>:
  \<open>None\<close> stands for \<open>undefined\<close> and \<open>null\<close>, which the code never tells apart.
  A value is truthy when it is a non-empty string.
\<close>

definition truthy :: "string option \<Rightarrow> bool" where
  "truthy v = (case v of None \<Rightarrow> False | Some s \<Rightarrow> s \<noteq> [])"

text \<open>\<open>a || b\<close> where \<open>b\<close> may itself be undefined.\<close>

definition js_or :: "string option \<Rightarrow> string option \<Rightarrow> string option" where
  "js_or a b = (if truthy a then a else b)"

text \<open>\<open>a || b\<close> where \<open>b\<close> is a string.\<close>

definition js_or_str :: "string option \<Rightarrow> string \<Rightarrow> string" where
  "js_or_str a b = (case a of None \<Rightarrow> b | Some s \<Rightarrow> if s = [] then b else s)"

text \<open>\<open>Array.prototype.join\<close> on an array of strings.\<close>

fun join :: "string \<Rightarrow> string list \<Rightarrow> string" where
  "join sep [] = []"
| "join sep [x] = x"
| "join sep (x # y # ys) = x @ sep @ join sep (y # ys)"

text \<open>
  A string is the UTF-8 encoding of the JavaScript string. \<open>String.prototype.trim\<close>
  removes white space and line terminators from both ends: TAB, LF, VT, FF, CR, SP,
  U+00A0, U+1680, U+2000 to U+200A, U+2028, U+2029, U+202F, U+205F, U+3000 and U+FEFF,
  listed here by their encodings.
\<close>

definition WHITE_SPACE :: "string list" where
  "WHITE_SPACE =
     [[CHR 0x09], [CHR 0x0A], [CHR 0x0B], [CHR 0x0C], [CHR 0x0D], [CHR 0x20],
      [CHR 0xC2, CHR 0xA0],
      [CHR 0xE1, CHR 0x9A, CHR 0x80],
      [CHR 0xE2, CHR 0x80, CHR 0x80], [CHR 0xE2, CHR 0x80, CHR 0x81],
      [CHR 0xE2, CHR 0x80, CHR 0x82], [CHR 0xE2, CHR 0x80, CHR 0x83],
      [CHR 0xE2, CHR 0x80, CHR 0x84], [CHR 0xE2, CHR 0x80, CHR 0x85],
      [CHR 0xE2, CHR 0x80, CHR 0x86], [CHR 0xE2, CHR 0x80, CHR 0x87],
      [CHR 0xE2, CHR 0x80, CHR 0x88], [CHR 0xE2, CHR 0x80, CHR 0x89],
      [CHR 0xE2, CHR 0x80, CHR 0x8A],
      [CHR 0xE2, CHR 0x80, CHR 0xA8], [CHR 0xE2, CHR 0x80, CHR 0xA9],
      [CHR 0xE2, CHR 0x80, CHR 0xAF],
      [CHR 0xE2, CHR 0x81, CHR 0x9F],
      [CHR 0xE3, CHR 0x80, CHR 0x80],
      [CHR 0xEF, CHR 0xBB, CHR 0xBF]]"

text \<open>Removes, from the front of \<open>s\<close>, every leading occurrence of one of \<open>ws\<close>.\<close>

function strip_leading :: "string list \<Rightarrow> string \<Rightarrow> string" where
  "strip_leading ws s =
     (case find (\<lambda>w. w \<noteq> [] \<and> take (length w) s = w) ws of
        None \<Rightarrow> s
      | Some w \<Rightarrow> strip_leading ws (drop (length w) s))"
  by pat_completeness auto
termination
proof (relation "measure (\<lambda>(ws, s). length s)")
  show "wf (measure (\<lambda>(ws, s). length s))" by simp
next
  fix ws :: "string list" and s w :: string
  assume "find (\<lambda>w. w \<noteq> [] \<and> take (length w) s = w) ws = Some w"
  then have "w \<noteq> []" and t: "take (length w) s = w" by (auto simp add: find_Some_iff)
  have "length (take (length w) s) \<le> length s" by simp
  with t have "length w \<le> length s" by simp
  with \<open>w \<noteq> []\<close> show "((ws, drop (length w) s), (ws, s)) \<in> measure (\<lambda>(ws, s). length s)"
    by (cases w) auto
qed

declare strip_leading.simps [simp del]

definition trim :: "string \<Rightarrow> string" where
  "trim s = rev (strip_leading (map rev WHITE_SPACE) (rev (strip_leading WHITE_SPACE s)))"


section \<open>Errors, requests and the upstream services\<close>

text \<open>
  What a \<open>catch\<close> clause can receive: a rejection of \<open>axios.get\<close>, with
  \<open>error.response?.status\<close> (\<open>None\<close> when there was no response at all), or an
  \<open>Error\<close> object made by \<open>new Error(message)\<close>.
\<close>

datatype error = AxiosError "nat option" | Error string

fun response_status :: "error \<Rightarrow> nat option" where
  "response_status (AxiosError st) = st"
| "response_status (Error msg) = None"

record request =
  url :: string
  headers :: "(string \<times> string) list"

text \<open>\<open>axios.get\<close> resolves with the body of a 2xx answer and rejects otherwise.\<close>

datatype 'a response = Resolved 'a | Failed "nat option"

text \<open>The bodies, typed as the call sites read them.\<close>

record catalog_page =
  results :: "string list"       \<comment> \<open>the \<open>name\<close> of each entry of \<open>data.results\<close>\<close>
  next_url :: "string option"    \<comment> \<open>\<open>data.next\<close>\<close>

record hub_repository =
  repo_name :: "string option"
  repo_description :: "string option"
  star_count :: "int option"
  pull_count :: "int option"
  last_updated :: "string option"
  is_private :: "bool option"

record token_response =
  token :: "string option"

record manifest_config =
  digest :: "string option"

record manifest =
  config :: "manifest_config option"

record container_config =
  Labels :: "(string \<Rightarrow> string option) option"

record config_blob =
  blob_config :: "container_config option"   \<comment> \<open>\<open>config.config\<close>\<close>

text \<open>
  The two upstream services, one responder for each kind of document the client asks
  for. An answer is a function of the request (URL and headers): the registry does not
  change while one call is served. A manifest or blob answer may be an empty body
  (\<open>None\<close>), which JavaScript reads as falsy.
\<close>

record upstream =
  hub_catalog :: "request \<Rightarrow> catalog_page response"
  hub_repo :: "request \<Rightarrow> hub_repository response"
  hub_tags :: "request \<Rightarrow> string list response"
  auth_token :: "request \<Rightarrow> token_response response"
  registry_manifest :: "request \<Rightarrow> manifest option response"
  registry_blob :: "request \<Rightarrow> config_blob option response"


section \<open>Asynchronous calls: outcome and the requests issued\<close>

text \<open>
  An \<open>async\<close> function settles with a value (\<open>Inr\<close>) or rejects (\<open>Inl\<close>); next to the
  outcome stands the list of the requests it sent, in order.
\<close>

type_synonym 'a io = "(error + 'a) \<times> request list"

definition outcome :: "'a io \<Rightarrow> error + 'a" where
  "outcome m = fst m"

definition trace :: "'a io \<Rightarrow> request list" where
  "trace m = snd m"

definition ret :: "'a \<Rightarrow> 'a io" where
  "ret x = (Inr x, [])"

definition throw :: "error \<Rightarrow> 'a io" where
  "throw e = (Inl e, [])"

text \<open>\<open>const x = await m; f x\<close>\<close>

definition await :: "'a io \<Rightarrow> ('a \<Rightarrow> 'b io) \<Rightarrow> 'b io" where
  "await m f =
     (case m of
        (Inl e, tr) \<Rightarrow> (Inl e, tr)
      | (Inr x, tr) \<Rightarrow> (case f x of (r, tr') \<Rightarrow> (r, tr @ tr')))"

text \<open>\<open>try { m } catch (error) { h error }\<close>\<close>

definition try_catch :: "'a io \<Rightarrow> (error \<Rightarrow> 'a io) \<Rightarrow> 'a io" where
  "try_catch m h =
     (case m of
        (Inl e, tr) \<Rightarrow> (case h e of (r, tr') \<Rightarrow> (r, tr @ tr'))
      | (Inr x, tr) \<Rightarrow> (Inr x, tr))"

definition axios_get :: "(request \<Rightarrow> 'a response) \<Rightarrow> request \<Rightarrow> 'a io" where
  "axios_get service req =
     (case service req of
        Resolved data \<Rightarrow> (Inr data, [req])
      | Failed st \<Rightarrow> (Inl (AxiosError st), [req]))"


section \<open>DockerRegistryClient\<close>

definition DOCKER_HUB_NAMESPACE :: string where
  "DOCKER_HUB_NAMESPACE = ''abdelrahmanelbadawy1''"

definition REGISTRY_API_BASE_URL :: string where
  "REGISTRY_API_BASE_URL = ''https://registry-1.docker.io/v2''"

subsection \<open>getRepositoryTags\<close>

definition tags_request :: "string \<Rightarrow> request" where
  "tags_request repo =
     \<lparr>url = ''https://hub.docker.com/v2/repositories/'' @ repo @ ''/tags/?page_size=100'',
      headers = []\<rparr>"

text \<open>Both handlers of the \<open>catch\<close> (404 and anything else) return the empty array.\<close>

definition getRepositoryTags :: "upstream \<Rightarrow> string \<Rightarrow> string list io" where
  "getRepositoryTags up repo =
     try_catch (await (axios_get (hub_tags up) (tags_request repo)) (\<lambda>names. ret names))
       (\<lambda>error. if response_status error = Some 404 then ret [] else ret [])"

subsection \<open>getDockerHubAuthToken\<close>

definition token_request :: "string \<Rightarrow> request" where
  "token_request repo =
     \<lparr>url = ''https://auth.docker.io/token?service=registry.docker.io&scope=repository:''
              @ repo @ '':pull'',
      headers = [(''User-Agent'', ''Docker Registry Client'')]\<rparr>"

definition getDockerHubAuthToken :: "upstream \<Rightarrow> string \<Rightarrow> string io" where
  "getDockerHubAuthToken up repo =
     try_catch
       (await (axios_get (auth_token up) (token_request repo)) (\<lambda>data.
          case token data of
            None \<Rightarrow> throw (Error ''No token received from Docker Hub auth service'')
          | Some t \<Rightarrow>
              if t = [] then throw (Error ''No token received from Docker Hub auth service'')
              else ret t))
       (\<lambda>error. throw error)"

subsection \<open>getManifest\<close>

definition MANIFEST_ACCEPT :: string where
  "MANIFEST_ACCEPT = ''application/vnd.docker.distribution.manifest.v2+json, application/vnd.docker.distribution.manifest.list.v2+json, application/vnd.oci.image.manifest.v1+json''"

text \<open>The manifest request, without credentials or with a bearer token.\<close>

definition manifest_request :: "string \<Rightarrow> string \<Rightarrow> string option \<Rightarrow> request" where
  "manifest_request repo tag bearer =
     \<lparr>url = REGISTRY_API_BASE_URL @ ''/'' @ repo @ ''/manifests/'' @ tag,
      headers =
        (case bearer of
           None \<Rightarrow> [(''Accept'', MANIFEST_ACCEPT)]
         | Some t \<Rightarrow> [(''Authorization'', ''Bearer '' @ t), (''Accept'', MANIFEST_ACCEPT)])\<rparr>"

text \<open>The \<open>try\<close> block of \<open>getManifest\<close>, entered once the tag is fixed.\<close>

definition fetchManifest :: "upstream \<Rightarrow> string \<Rightarrow> string \<Rightarrow> manifest option io" where
  "fetchManifest up repo tag =
     try_catch
       (try_catch
          (axios_get (registry_manifest up) (manifest_request repo tag None))
          (\<lambda>error.
             if response_status error = Some 401 then
               await (getDockerHubAuthToken up repo) (\<lambda>t.
                 axios_get (registry_manifest up) (manifest_request repo tag (Some t)))
             else if response_status error = Some 404 then
               await (getRepositoryTags up repo) (\<lambda>availableTags.
                 throw (Error (''Tag '' @ [CHR 0x27] @ tag @ [CHR 0x27]
                                 @ '' not found for repository '' @ repo
                                 @ ''. Available tags: '' @ join '', '' availableTags)))
             else throw error))
       (\<lambda>error. throw error)"

text \<open>
  \<open>tag\<close> is optional; \<open>!tag\<close> holds for an omitted and for an empty tag. When the
  listing is not empty, \<open>tags[0]\<close> is its head.
\<close>

definition selectTag :: "string list \<Rightarrow> string" where
  "selectTag tags = (if ''latest'' \<in> set tags then ''latest'' else hd tags)"

definition getManifest :: "upstream \<Rightarrow> string \<Rightarrow> string option \<Rightarrow> manifest option io" where
  "getManifest up repo tag =
     (case (if truthy tag then tag else None) of
        None \<Rightarrow>
          await (getRepositoryTags up repo) (\<lambda>tags.
            if length tags = 0 then ret None
            else fetchManifest up repo (selectTag tags))
      | Some t \<Rightarrow> fetchManifest up repo t)"

subsection \<open>getConfig\<close>

definition blob_request :: "string \<Rightarrow> string \<Rightarrow> string option \<Rightarrow> request" where
  "blob_request repo dgst bearer =
     \<lparr>url = REGISTRY_API_BASE_URL @ ''/'' @ repo @ ''/blobs/'' @ dgst,
      headers =
        (case bearer of
           None \<Rightarrow> [(''Accept'', ''application/vnd.docker.container.image.v1+json'')]
         | Some t \<Rightarrow> [(''Authorization'', ''Bearer '' @ t),
                      (''Accept'', ''application/vnd.docker.container.image.v1+json'')])\<rparr>"

definition getConfig :: "upstream \<Rightarrow> string \<Rightarrow> string \<Rightarrow> config_blob option io" where
  "getConfig up repo dgst =
     try_catch
       (try_catch
          (axios_get (registry_blob up) (blob_request repo dgst None))
          (\<lambda>error.
             if response_status error = Some 401 then
               await (getDockerHubAuthToken up repo) (\<lambda>t.
                 axios_get (registry_blob up) (blob_request repo dgst (Some t)))
             else throw error))
       (\<lambda>error. throw error)"

subsection \<open>getRepositoryInfo\<close>

text \<open>The interface \<open>RepositoryInfo\<close>: the Hub document and the two tag fields.\<close>

record RepositoryInfo = hub_repository +
  has_tags :: "bool option"
  available_tags :: "string list option"

definition repo_request :: "string \<Rightarrow> request" where
  "repo_request repo =
     \<lparr>url = ''https://hub.docker.com/v2/repositories/'' @ repo @ ''/'', headers = []\<rparr>"

definition getRepositoryInfo :: "upstream \<Rightarrow> string \<Rightarrow> RepositoryInfo option io" where
  "getRepositoryInfo up repo =
     try_catch
       (await (axios_get (hub_repo up) (repo_request repo)) (\<lambda>data.
          await (getRepositoryTags up repo) (\<lambda>tags.
            ret (Some \<lparr>repo_name = repo_name data,
                       repo_description = repo_description data,
                       star_count = star_count data,
                       pull_count = pull_count data,
                       last_updated = last_updated data,
                       is_private = is_private data,
                       has_tags = Some (length tags > 0),
                       available_tags = Some tags\<rparr>))))
       (\<lambda>error. if response_status error = Some 404 then ret None else ret None)"

subsection \<open>getRepositoriesFromDockerHub\<close>

definition first_page_url :: string where
  "first_page_url =
     ''https://hub.docker.com/v2/repositories/'' @ DOCKER_HUB_NAMESPACE @ ''/?page_size=100''"

definition page_request :: "string \<Rightarrow> request" where
  "page_request u = \<lparr>url = u, headers = []\<rparr>"

text \<open>
  The \<open>while (nextUrl)\<close> loop with its two variables; \<open>tr\<close> collects the requests sent
  so far. A catalog whose cursors never end keeps the loop running: the value \<open>None\<close>.
\<close>

partial_function (option) fetchPages ::
  "upstream \<Rightarrow> string list \<Rightarrow> string option \<Rightarrow> request list \<Rightarrow> string list io option"
where
  "fetchPages up repositories nextUrl tr =
     (case (if truthy nextUrl then nextUrl else None) of
        None \<Rightarrow> Some (Inr repositories, tr)
      | Some u \<Rightarrow>
          (case hub_catalog up (page_request u) of
             Failed st \<Rightarrow> Some (Inl (AxiosError st), tr @ [page_request u])
           | Resolved data \<Rightarrow>
               fetchPages up (repositories @ results data) (next_url data)
                 (tr @ [page_request u])))"

definition getRepositoriesFromDockerHub :: "upstream \<Rightarrow> string list io option" where
  "getRepositoriesFromDockerHub up =
     map_option
       (\<lambda>loop.
          try_catch
            (await loop (\<lambda>repositories.
               ret (map (\<lambda>repo. DOCKER_HUB_NAMESPACE @ ''/'' @ repo) repositories)))
            (\<lambda>error. ret []))
       (fetchPages up [] (Some first_page_url) [])"


section \<open>The domain: AppLocation and App\<close>

record AppLocation =
  location_value :: string

definition AppLocation_create :: "string \<Rightarrow> error + AppLocation" where
  "AppLocation_create location =
     (if location = [] \<or> length (trim location) = 0
      then Inl (Error ''App location cannot be empty.'')
      else Inr \<lparr>location_value = location\<rparr>)"

record App =
  name :: string
  location :: AppLocation
  description :: string
  pictureUrl :: string

text \<open>A synchronous call that may throw, inside an \<open>async\<close> function.\<close>

definition sync :: "error + 'a \<Rightarrow> 'a io" where
  "sync r = (r, [])"


section \<open>AppRepository.findAll\<close>

text \<open>
  The object literal that \<open>findAll\<close> returns in each of its four fallback branches
  (no tags, no manifest, no config digest, no config).
\<close>

definition basicApp :: "RepositoryInfo \<Rightarrow> string \<Rightarrow> App option io" where
  "basicApp repoInfo repoName =
     await (sync (AppLocation_create repoName)) (\<lambda>loc.
       ret (Some \<lparr>name = js_or_str (repo_name repoInfo) repoName,
                  location = loc,
                  description = js_or_str (repo_description repoInfo) ''No description provided.'',
                  pictureUrl = ''https://via.placeholder.com/150''\<rparr>))"

text \<open>\<open>!repoInfo.has_tags || repoInfo.available_tags?.length === 0\<close>\<close>

definition reportsNoTags :: "RepositoryInfo \<Rightarrow> bool" where
  "reportsNoTags repoInfo =
     (has_tags repoInfo \<noteq> Some True
      \<or> (case available_tags repoInfo of None \<Rightarrow> False | Some ts \<Rightarrow> length ts = 0))"

text \<open>\<open>config.config?.Labels || {}\<close>\<close>

definition labelsOf :: "config_blob \<Rightarrow> (string \<Rightarrow> string option)" where
  "labelsOf cfg =
     (case blob_config cfg of
        None \<Rightarrow> Map.empty
      | Some cc \<Rightarrow> (case Labels cc of None \<Rightarrow> Map.empty | Some l \<Rightarrow> l))"

text \<open>The body of the \<open>try\<close> in the function mapped over the repository names.\<close>

definition processRepository_try :: "upstream \<Rightarrow> string \<Rightarrow> App option io" where
  "processRepository_try up repoName =
     await (getRepositoryInfo up repoName) (\<lambda>found.
       case found of
         None \<Rightarrow> ret None
       | Some repoInfo \<Rightarrow>
           if reportsNoTags repoInfo then basicApp repoInfo repoName
           else
             await (getManifest up repoName None) (\<lambda>fetched.
               case fetched of
                 None \<Rightarrow> basicApp repoInfo repoName
               | Some m \<Rightarrow>
                   (case config m of
                      None \<Rightarrow> basicApp repoInfo repoName
                    | Some c \<Rightarrow>
                        (case (if truthy (digest c) then digest c else None) of
                           None \<Rightarrow> basicApp repoInfo repoName
                         | Some d \<Rightarrow>
                             await (getConfig up repoName d) (\<lambda>blob.
                               case blob of
                                 None \<Rightarrow> basicApp repoInfo repoName
                               | Some cfg \<Rightarrow>
                                   await (sync (AppLocation_create repoName)) (\<lambda>loc.
                                     ret (Some
                                       \<lparr>name =
                                          js_or_str
                                            (js_or (labelsOf cfg ''org.opencontainers.image.title'')
                                               (repo_name repoInfo))
                                            repoName,
                                        location = loc,
                                        description =
                                          js_or_str
                                            (js_or
                                               (labelsOf cfg ''org.opencontainers.image.description'')
                                               (repo_description repoInfo))
                                            ''No description provided.'',
                                        pictureUrl =
                                          js_or_str (labelsOf cfg ''com.app-store.picture-url'')
                                            ''https://via.placeholder.com/150''\<rparr>)))))))"

text \<open>The function mapped over the repository names: the \<open>try\<close> and its two handlers.\<close>

definition processRepository :: "upstream \<Rightarrow> string \<Rightarrow> App option io" where
  "processRepository up repoName =
     try_catch (processRepository_try up repoName)
       (\<lambda>error.
          try_catch
            (await (sync (AppLocation_create repoName)) (\<lambda>loc.
               ret (Some \<lparr>name = repoName,
                          location = loc,
                          description = ''Repository information unavailable.'',
                          pictureUrl = ''https://via.placeholder.com/150''\<rparr>)))
            (\<lambda>locationError. ret None))"

text \<open>\<open>Promise.all\<close> rejects as soon as one of its promises does.\<close>

fun promise_all :: "(error + 'a) list \<Rightarrow> error + 'a list" where
  "promise_all [] = Inr []"
| "promise_all (p # ps) =
     (case p of
        Inl e \<Rightarrow> Inl e
      | Inr x \<Rightarrow> (case promise_all ps of Inl e \<Rightarrow> Inl e | Inr xs \<Rightarrow> Inr (x # xs)))"

text \<open>\<open>apps.filter((app) => app !== null)\<close>\<close>

fun filter_non_null :: "'a option list \<Rightarrow> 'a list" where
  "filter_non_null [] = []"
| "filter_non_null (None # xs) = filter_non_null xs"
| "filter_non_null (Some x # xs) = x # filter_non_null xs"

text \<open>
  The repositories are resolved concurrently; each resolution reads only the upstream
  answers, so the batch is the list of the single outcomes. An array is truthy, so the
  test \<open>!repositories\<close> never holds. The outer \<open>catch\<close> returns the empty array.
\<close>

definition findAll :: "upstream \<Rightarrow> (error + App list) option" where
  "findAll up =
     map_option
       (\<lambda>listing.
          case outcome listing of
            Inl error \<Rightarrow> Inr []
          | Inr repositories \<Rightarrow>
              (case promise_all
                      (map (\<lambda>repoName. outcome (processRepository up repoName)) repositories) of
                 Inl error \<Rightarrow> Inr []
               | Inr apps \<Rightarrow> Inr (filter_non_null apps)))
       (getRepositoriesFromDockerHub up)"


section \<open>The HTTP endpoint\<close>

record AppDTO =
  dto_name :: string
  dto_location :: string
  dto_description :: string
  dto_pictureUrl :: string

record http_reply =
  status :: nat
  json :: "AppDTO list"

text \<open>
  \<open>AppService.getAllApps\<close>: \<open>return this.appRepository.findAll()\<close>.
\<close>

definition getAllApps :: "upstream \<Rightarrow> (error + App list) option" where
  "getAllApps up = findAll up"

text \<open>The controller has no \<open>catch\<close>: a rejection of the service leaves it rejected.\<close>

definition getAllAppsController :: "upstream \<Rightarrow> (error + http_reply) option" where
  "getAllAppsController up =
     map_option
       (\<lambda>settled.
          case settled of
            Inl e \<Rightarrow> Inl e
          | Inr apps \<Rightarrow>
              Inr \<lparr>status = 200,
                   json = map (\<lambda>app. \<lparr>dto_name = name app,
                                          dto_location = location_value (location app),
                                          dto_description = description app,
                                          dto_pictureUrl = pictureUrl app\<rparr>) apps\<rparr>)
       (getAllApps up)"

section \<open>An example registry\<close>

text \<open>
  A catalog of two pages with three repositories. \<open>web\<close> has two tags, a manifest that
  is served to bearers of a token only, and a config blob with a title and a picture
  label. \<open>db\<close> has a description and no tag. \<open>cache\<close> lists two tags, but the registry
  has no manifest for the first.
\<close>

definition example_page2 :: string where
  "example_page2 =
     ''https://hub.docker.com/v2/repositories/abdelrahmanelbadawy1/?page=2&page_size=100''"

definition example_manifest :: manifest where
  "example_manifest = \<lparr>config = Some \<lparr>digest = Some ''sha256:c0ffee''\<rparr>\<rparr>"

definition example_labels :: "string \<Rightarrow> string option" where
  "example_labels =
     map_of [(''org.opencontainers.image.title'', ''Web Server''),
             (''com.app-store.picture-url'', ''https://example.com/web.png'')]"

definition example_blob :: config_blob where
  "example_blob = \<lparr>blob_config = Some \<lparr>Labels = Some example_labels\<rparr>\<rparr>"

definition example_upstream :: upstream where
  "example_upstream =
     \<lparr>hub_catalog = (\<lambda>req.
        if url req = first_page_url
        then Resolved \<lparr>results = [''web''], next_url = Some example_page2\<rparr>
        else if url req = example_page2
        then Resolved \<lparr>results = [''db'', ''cache''], next_url = None\<rparr>
        else Failed (Some 404)),
      hub_repo = (\<lambda>req.
        if url req = url (repo_request ''abdelrahmanelbadawy1/web'')
        then Resolved \<lparr>repo_name = Some ''web'', repo_description = Some ''A web server'',
                        star_count = Some 3, pull_count = Some 120,
                        last_updated = None, is_private = Some False\<rparr>
        else if url req = url (repo_request ''abdelrahmanelbadawy1/db'')
        then Resolved \<lparr>repo_name = Some ''db'', repo_description = Some ''A database'',
                        star_count = Some 0, pull_count = Some 0,
                        last_updated = None, is_private = Some False\<rparr>
        else if url req = url (repo_request ''abdelrahmanelbadawy1/cache'')
        then Resolved \<lparr>repo_name = Some ''cache'', repo_description = None,
                        star_count = None, pull_count = None,
                        last_updated = None, is_private = None\<rparr>
        else Failed (Some 404)),
      hub_tags = (\<lambda>req.
        if url req = url (tags_request ''abdelrahmanelbadawy1/web'')
        then Resolved [''v1'', ''latest'']
        else if url req = url (tags_request ''abdelrahmanelbadawy1/cache'')
        then Resolved [''1.0'', ''0.9'']
        else Resolved []),
      auth_token = (\<lambda>req. Resolved \<lparr>token = Some ''t0k3n''\<rparr>),
      registry_manifest = (\<lambda>req.
        if url req = url (manifest_request ''abdelrahmanelbadawy1/cache'' ''1.0'' None)
        then Failed (Some 404)
        else if (''Authorization'', ''Bearer t0k3n'') \<in> set (headers req)
        then Resolved (Some example_manifest)
        else Failed (Some 401)),
      registry_blob = (\<lambda>req. Resolved (Some example_blob))\<rparr>"

text \<open>The same registry with a blob store that answers 500.\<close>

definition example_blob_down :: upstream where
  "example_blob_down = example_upstream\<lparr>registry_blob := (\<lambda>req. Failed (Some 500))\<rparr>"

text \<open>The same registry when the Hub knows none of the listed repositories.\<close>

definition example_repos_gone :: upstream where
  "example_repos_gone = example_upstream\<lparr>hub_repo := (\<lambda>req. Failed (Some 404))\<rparr>"

text \<open>The same registry when the second catalog page cannot be reached.\<close>

definition example_catalog_down :: upstream where
  "example_catalog_down =
     example_upstream\<lparr>hub_catalog := (\<lambda>req.
        if url req = first_page_url
        then Resolved \<lparr>results = [''web''], next_url = Some example_page2\<rparr>
        else Failed None)\<rparr>"


text \<open>What \<open>getRepositoryInfo\<close> reports for \<open>web\<close>.\<close>

definition example_info_web :: RepositoryInfo where
  "example_info_web =
     \<lparr>repo_name = Some ''web'', repo_description = Some ''A web server'',
      star_count = Some 3, pull_count = Some 120,
      last_updated = None, is_private = Some False,
      has_tags = Some True, available_tags = Some [''v1'', ''latest'']\<rparr>"


text \<open>The same registry when the Hub has an entry, without name or description, for any name.\<close>

definition example_any_repo :: upstream where
  "example_any_repo =
     example_upstream\<lparr>hub_repo := (\<lambda>req.
        Resolved \<lparr>repo_name = None, repo_description = None, star_count = None,
                  pull_count = None, last_updated = None, is_private = None\<rparr>)\<rparr>"

text \<open>The records expected for \<open>web\<close> and \<open>db\<close>.\<close>

definition example_app_web :: App where
  "example_app_web =
     \<lparr>name = ''Web Server'',
      location = \<lparr>location_value = ''abdelrahmanelbadawy1/web''\<rparr>,
      description = ''A web server'',
      pictureUrl = ''https://example.com/web.png''\<rparr>"

definition example_app_db :: App where
  "example_app_db =
     \<lparr>name = ''db'',
      location = \<lparr>location_value = ''abdelrahmanelbadawy1/db''\<rparr>,
      description = ''A database'',
      pictureUrl = ''https://via.placeholder.com/150''\<rparr>"


text \<open>The same registry with a blob store that answers with an empty body.\<close>

definition example_blob_empty :: upstream where
  "example_blob_empty = example_upstream\<lparr>registry_blob := (\<lambda>req. Resolved None)\<rparr>"

text \<open>The same registry with a blob for \<open>web\<close> that has no \<open>config\<close>.\<close>

definition example_no_labels :: upstream where
  "example_no_labels =
     example_upstream\<lparr>registry_blob := (\<lambda>req. Resolved (Some \<lparr>blob_config = None\<rparr>))\<rparr>"

text \<open>The same registry with a blob whose title label is the empty string.\<close>

definition example_labels_empty_title :: "string \<Rightarrow> string option" where
  "example_labels_empty_title = map_of [(''org.opencontainers.image.title'', [])]"

definition example_blob_empty_title :: config_blob where
  "example_blob_empty_title =
     \<lparr>blob_config = Some \<lparr>Labels = Some example_labels_empty_title\<rparr>\<rparr>"

definition example_empty_title :: upstream where
  "example_empty_title =
     example_upstream\<lparr>registry_blob := (\<lambda>req. Resolved (Some example_blob_empty_title))\<rparr>"

text \<open>
  The same registry when the tag \<open>latest\<close> of \<open>web\<close> is gone: the registry asks for
  credentials first and answers the bearer with 404.
\<close>

definition example_tag_gone :: upstream where
  "example_tag_gone =
     example_upstream\<lparr>registry_manifest := (\<lambda>req.
        if map_of (headers req) ''Authorization'' = None
        then Failed (Some 401) else Failed (Some 404))\<rparr>"

text \<open>The same registry with a catalog whose every page points back to the first page.\<close>

definition example_endless :: upstream where
  "example_endless =
     example_upstream\<lparr>hub_catalog := (\<lambda>req.
        Resolved \<lparr>results = [''web''], next_url = Some first_page_url\<rparr>)\<rparr>"


section \<open>The vocabulary of the specification\<close>

text \<open>
  The fallback chain ``\<open>a\<close>, else \<open>b\<close>, else the default'': the first value of the chain
  that is present, where a value is present when it is a non-empty string.
\<close>

fun first_present :: "string option list \<Rightarrow> string \<Rightarrow> string" where
  "first_present [] d = d"
| "first_present (None # vs) d = first_present vs d"
| "first_present (Some s # vs) d = (if s = [] then first_present vs d else s)"

text \<open>
  The minimal record: the raw repository name as name and location, and the
  ``unavailable'' placeholder as description.
\<close>

definition minimalApp :: "string \<Rightarrow> App" where
  "minimalApp repoName =
     \<lparr>name = repoName, location = \<lparr>location_value = repoName\<rparr>,
      description = ''Repository information unavailable.'',
      pictureUrl = ''https://via.placeholder.com/150''\<rparr>"

text \<open>What a settled resolution hands to the batch.\<close>

definition settled :: "upstream \<Rightarrow> string \<Rightarrow> App option" where
  "settled up repoName =
     (case outcome (processRepository up repoName) of Inr res \<Rightarrow> res | Inl e \<Rightarrow> None)"


text \<open>
  The pages of a listing, each with the URL it was fetched from: the first is the answer
  at the start URL, each further one is the answer at the \<open>next\<close> cursor of the page
  before it, and the last one has no cursor.
\<close>

fun follows_cursor :: "upstream \<Rightarrow> string \<Rightarrow> (string \<times> catalog_page) list \<Rightarrow> bool" where
  "follows_cursor up u [] = False"
| "follows_cursor up u [(v, p)] =
     (v = u \<and> hub_catalog up (page_request u) = Resolved p \<and> \<not> truthy (next_url p))"
| "follows_cursor up u ((v, p) # q # ps) =
     (v = u \<and> hub_catalog up (page_request u) = Resolved p
      \<and> (case next_url p of
            None \<Rightarrow> False
          | Some u' \<Rightarrow> u' \<noteq> [] \<and> follows_cursor up u' (q # ps)))"

text \<open>
  The pages that were fetched, following the cursors, before a page fetch failed.
\<close>

fun cursor_fails :: "upstream \<Rightarrow> string \<Rightarrow> (string \<times> catalog_page) list \<Rightarrow> bool" where
  "cursor_fails up u [] =
     (case hub_catalog up (page_request u) of Failed st \<Rightarrow> True | Resolved p \<Rightarrow> False)"
| "cursor_fails up u ((v, p) # ps) =
     (v = u \<and> hub_catalog up (page_request u) = Resolved p
      \<and> (case next_url p of
            None \<Rightarrow> False
          | Some u' \<Rightarrow> u' \<noteq> [] \<and> cursor_fails up u' ps))"



section \<open>Laws of the asynchronous calls\<close>

lemma await_Inl: "await (Inl e, tr) f = (Inl e, tr)"
  by (simp add: await_def)

lemma await_Inr: "await (Inr x, tr) f = (fst (f x), tr @ snd (f x))"
  by (simp add: await_def split: prod.split)

lemma try_catch_Inl: "try_catch (Inl e, tr) h = (fst (h e), tr @ snd (h e))"
  by (simp add: try_catch_def split: prod.split)

lemma try_catch_Inr: "try_catch (Inr x, tr) h = (Inr x, tr)"
  by (simp add: try_catch_def)

lemmas io_simps = await_Inl await_Inr try_catch_Inl try_catch_Inr ret_def throw_def
  axios_get_def outcome_def trace_def

lemma outcome_await_Inr: "outcome m = Inr x \<Longrightarrow> outcome (await m f) = outcome (f x)"
  by (cases m) (simp add: outcome_def await_def split: prod.split)

lemma outcome_await_Inl: "outcome m = Inl e \<Longrightarrow> outcome (await m f) = Inl e"
  by (cases m) (simp add: outcome_def await_def)

lemma outcome_await:
  "outcome (await m f) = (case outcome m of Inl e \<Rightarrow> Inl e | Inr x \<Rightarrow> outcome (f x))"
  by (cases m) (simp add: outcome_def await_def split: sum.split prod.split)

lemma outcome_try_catch_Inr: "outcome m = Inr x \<Longrightarrow> outcome (try_catch m h) = Inr x"
  by (cases m) (simp add: outcome_def try_catch_def)

lemma outcome_try_catch_Inl: "outcome m = Inl e \<Longrightarrow> outcome (try_catch m h) = outcome (h e)"
  by (cases m) (simp add: outcome_def try_catch_def split: prod.split)

lemma outcome_ret: "outcome (ret x) = Inr x"
  by (simp add: outcome_def ret_def)

lemma outcome_sync: "outcome (sync r) = r"
  by (simp add: outcome_def sync_def)



section \<open>The client operations, case by case\<close>

lemma getRepositoryTags_eq:
  "getRepositoryTags up repo =
     (Inr (case hub_tags up (tags_request repo) of Resolved ns \<Rightarrow> ns | Failed st \<Rightarrow> []),
      [tags_request repo])"
  by (simp add: getRepositoryTags_def axios_get_def await_Inr await_Inl try_catch_Inl
      try_catch_Inr ret_def split: response.split)

lemma getDockerHubAuthToken_eq:
  "getDockerHubAuthToken up repo =
     (case auth_token up (token_request repo) of
        Failed st \<Rightarrow> Inl (AxiosError st)
      | Resolved d \<Rightarrow>
          (case token d of
             None \<Rightarrow> Inl (Error ''No token received from Docker Hub auth service'')
           | Some t \<Rightarrow> if t = [] then Inl (Error ''No token received from Docker Hub auth service'')
                       else Inr t),
      [token_request repo])"
  by (simp add: getDockerHubAuthToken_def try_catch_Inl try_catch_Inr axios_get_def await_Inr await_Inl
      ret_def throw_def split: response.split option.split)

lemma fetchManifest_resolved:
  "registry_manifest up (manifest_request repo tag None) = Resolved m \<Longrightarrow>
   fetchManifest up repo tag = (Inr m, [manifest_request repo tag None])"
  by (simp add: fetchManifest_def try_catch_Inl try_catch_Inr throw_def axios_get_def try_catch_Inr)

lemma fetchManifest_404:
  "registry_manifest up (manifest_request repo tag None) = Failed (Some 404) \<Longrightarrow>
   fetchManifest up repo tag =
     (Inl (Error (''Tag '' @ [CHR 0x27] @ tag @ [CHR 0x27] @ '' not found for repository '' @ repo
                  @ ''. Available tags: '' @ join '', '' (case hub_tags up (tags_request repo) of Resolved ns \<Rightarrow> ns | Failed st \<Rightarrow> []))),
      [manifest_request repo tag None, tags_request repo])"
  by (simp add: fetchManifest_def try_catch_Inl try_catch_Inr throw_def axios_get_def try_catch_Inl getRepositoryTags_eq await_Inr throw_def)

lemma fetchManifest_other:
  "registry_manifest up (manifest_request repo tag None) = Failed st \<Longrightarrow> st \<noteq> Some 401 \<Longrightarrow> st \<noteq> Some 404 \<Longrightarrow>
   fetchManifest up repo tag = (Inl (AxiosError st), [manifest_request repo tag None])"
  by (simp add: fetchManifest_def try_catch_Inl try_catch_Inr throw_def axios_get_def try_catch_Inl throw_def)

lemma fetchManifest_401:
  "registry_manifest up (manifest_request repo tag None) = Failed (Some 401) \<Longrightarrow>
   fetchManifest up repo tag =
     (case outcome (getDockerHubAuthToken up repo) of
        Inl e \<Rightarrow> (Inl e, [manifest_request repo tag None, token_request repo])
      | Inr t \<Rightarrow>
          (case registry_manifest up (manifest_request repo tag (Some t)) of
             Resolved m \<Rightarrow> Inr m | Failed st \<Rightarrow> Inl (AxiosError st),
           [manifest_request repo tag None, token_request repo, manifest_request repo tag (Some t)]))"
  by (simp add: fetchManifest_def try_catch_Inl try_catch_Inr throw_def axios_get_def try_catch_Inl getDockerHubAuthToken_eq
      await_Inr await_Inl outcome_def split: response.split option.split)


lemma getManifest_tagged: "tag \<noteq> [] \<Longrightarrow> getManifest up repo (Some tag) = fetchManifest up repo tag"
  by (simp add: getManifest_def truthy_def)

lemma getManifest_untagged:
  "\<not> truthy tag \<Longrightarrow> outcome (getRepositoryTags up repo) = Inr tags \<Longrightarrow>
   getManifest up repo tag =
     (if tags = [] then (Inr None, [tags_request repo])
      else (outcome (fetchManifest up repo (selectTag tags)),
            tags_request repo # trace (fetchManifest up repo (selectTag tags))))"
  by (auto simp add: getManifest_def getRepositoryTags_eq io_simps)

lemma getConfig_resolved:
  "registry_blob up (blob_request repo dgst None) = Resolved b \<Longrightarrow>
   getConfig up repo dgst = (Inr b, [blob_request repo dgst None])"
  by (simp add: getConfig_def io_simps)

lemma getConfig_other:
  "registry_blob up (blob_request repo dgst None) = Failed st \<Longrightarrow> st \<noteq> Some 401 \<Longrightarrow>
   getConfig up repo dgst = (Inl (AxiosError st), [blob_request repo dgst None])"
  by (simp add: getConfig_def io_simps)

lemma getConfig_401:
  "registry_blob up (blob_request repo dgst None) = Failed (Some 401) \<Longrightarrow>
   getConfig up repo dgst =
     (case outcome (getDockerHubAuthToken up repo) of
        Inl e \<Rightarrow> (Inl e, [blob_request repo dgst None, token_request repo])
      | Inr t \<Rightarrow>
          (case registry_blob up (blob_request repo dgst (Some t)) of
             Resolved b \<Rightarrow> Inr b | Failed st \<Rightarrow> Inl (AxiosError st),
           [blob_request repo dgst None, token_request repo, blob_request repo dgst (Some t)]))"
  by (simp add: getConfig_def getDockerHubAuthToken_eq io_simps
      split: response.split option.split)

lemma getRepositoryInfo_eq:
  "getRepositoryInfo up repo =
     (case hub_repo up (repo_request repo) of
        Failed st \<Rightarrow> (Inr None, [repo_request repo])
      | Resolved data \<Rightarrow>
          (Inr (Some \<lparr>repo_name = repo_name data,
                      repo_description = repo_description data,
                      star_count = star_count data,
                      pull_count = pull_count data,
                      last_updated = last_updated data,
                      is_private = is_private data,
                      has_tags =
                        Some (case hub_tags up (tags_request repo) of
                                Resolved ns \<Rightarrow> ns \<noteq> [] | Failed st \<Rightarrow> False),
                      available_tags =
                        Some (case hub_tags up (tags_request repo) of
                                Resolved ns \<Rightarrow> ns | Failed st \<Rightarrow> [])\<rparr>),
           [repo_request repo, tags_request repo]))"
  by (simp add: getRepositoryInfo_def getRepositoryTags_eq io_simps split: response.split)

lemma getRepositoryInfo_settles: "\<exists>found. outcome (getRepositoryInfo up repo) = Inr found"
  by (simp add: getRepositoryInfo_eq outcome_def split: response.split)


lemma token_request_not_manifest: "manifest_request repo' tag b \<noteq> token_request repo"
  by (simp add: token_request_def manifest_request_def REGISTRY_API_BASE_URL_def)

lemma token_request_not_tags: "tags_request repo' \<noteq> token_request repo"
  by (simp add: token_request_def tags_request_def)

lemma manifest_url_not_tags: "url (tags_request repo') \<noteq> url (manifest_request repo tag b)"
  by (simp add: tags_request_def manifest_request_def REGISTRY_API_BASE_URL_def)

lemma manifest_url_not_token: "url (token_request repo') \<noteq> url (manifest_request repo tag b)"
  by (simp add: token_request_def manifest_request_def REGISTRY_API_BASE_URL_def)

lemma manifest_request_bearer:
  "url (manifest_request repo tag (Some t)) = url (manifest_request repo tag None)
   \<and> map_of (headers (manifest_request repo tag (Some t))) ''Authorization'' = Some (''Bearer '' @ t)
   \<and> map_of (headers (manifest_request repo tag (Some t))) ''Accept''
       = map_of (headers (manifest_request repo tag None)) ''Accept''
   \<and> map_of (headers (manifest_request repo tag None)) ''Authorization'' = None"
  by (simp add: manifest_request_def)

text \<open>Each operation reads only the responders of the documents it asks for.\<close>

lemma getRepositoryTags_reads:
  "hub_tags up = hub_tags up' \<Longrightarrow> getRepositoryTags up repo = getRepositoryTags up' repo"
  by (simp add: getRepositoryTags_eq)

lemma getDockerHubAuthToken_reads:
  "auth_token up = auth_token up' \<Longrightarrow>
   getDockerHubAuthToken up repo = getDockerHubAuthToken up' repo"
  by (simp add: getDockerHubAuthToken_eq)

lemma getRepositoryInfo_reads:
  "hub_repo up = hub_repo up' \<Longrightarrow> hub_tags up = hub_tags up' \<Longrightarrow>
   getRepositoryInfo up repo = getRepositoryInfo up' repo"
  by (simp add: getRepositoryInfo_eq split: response.split)

lemma fetchManifest_reads:
  "registry_manifest up = registry_manifest up' \<Longrightarrow> auth_token up = auth_token up' \<Longrightarrow>
   hub_tags up = hub_tags up' \<Longrightarrow>
   fetchManifest up repo tag = fetchManifest up' repo tag"
  by (simp add: fetchManifest_def getRepositoryTags_reads [of up up']
      getDockerHubAuthToken_reads [of up up'] cong: if_cong)

lemma getManifest_reads:
  "registry_manifest up = registry_manifest up' \<Longrightarrow> auth_token up = auth_token up' \<Longrightarrow>
   hub_tags up = hub_tags up' \<Longrightarrow>
   getManifest up repo tag = getManifest up' repo tag"
  by (simp add: getManifest_def getRepositoryTags_reads [of up up']
      fetchManifest_reads [of up up'] cong: if_cong option.case_cong)



section \<open>The pagination loop\<close>

lemma fetchPages_done:
  "\<not> truthy nextUrl \<Longrightarrow> fetchPages up acc nextUrl tr = Some (Inr acc, tr)"
  by (subst fetchPages.simps) simp

lemma fetchPages_step:
  "u \<noteq> [] \<Longrightarrow> hub_catalog up (page_request u) = Resolved p \<Longrightarrow>
   fetchPages up acc (Some u) tr =
     fetchPages up (acc @ results p) (next_url p) (tr @ [page_request u])"
  by (subst fetchPages.simps) (simp add: truthy_def)

lemma fetchPages_failed:
  "u \<noteq> [] \<Longrightarrow> hub_catalog up (page_request u) = Failed st \<Longrightarrow>
   fetchPages up acc (Some u) tr = Some (Inl (AxiosError st), tr @ [page_request u])"
  by (subst fetchPages.simps) (simp add: truthy_def)

lemma fetchPages_follows:
  "u \<noteq> [] \<Longrightarrow> follows_cursor up u ps \<Longrightarrow>
   fetchPages up acc (Some u) tr =
     Some (Inr (acc @ concat (map (\<lambda>vp. results (snd vp)) ps)),
           tr @ map (\<lambda>vp. page_request (fst vp)) ps)"
proof (induction up u ps arbitrary: acc tr rule: follows_cursor.induct)
  case (1 up u)
  then show ?case by simp
next
  case (2 up u v p)
  then show ?case by (simp add: fetchPages_step fetchPages_done)
next
  case (3 up u v p q ps)
  from "3.prems" obtain u' where
    here: "v = u" "hub_catalog up (page_request u) = Resolved p"
    and nxt: "next_url p = Some u'" "u' \<noteq> []" "follows_cursor up u' (q # ps)"
    by (auto split: option.splits)
  from "3.IH" [OF nxt(1) nxt(2) nxt(3)] here nxt "3.prems"(1) show ?case
    by (simp add: fetchPages_step)
qed

lemma fetchPages_fails:
  "u \<noteq> [] \<Longrightarrow> cursor_fails up u ps \<Longrightarrow>
   \<exists>st tr'. fetchPages up acc (Some u) tr = Some (Inl (AxiosError st), tr')"
proof (induction ps arbitrary: u acc tr)
  case Nil
  then show ?case by (auto simp add: fetchPages_failed split: response.splits)
next
  case (Cons vp ps)
  obtain v p where vp: "vp = (v, p)" by (cases vp)
  from Cons.prems vp obtain u' where
    here: "hub_catalog up (page_request u) = Resolved p"
    and nxt: "next_url p = Some u'" "u' \<noteq> []" "cursor_fails up u' ps"
    by (auto split: option.splits)
  from Cons.IH [OF nxt(2) nxt(3)] here nxt(1) Cons.prems(1) show ?case
    by (simp add: fetchPages_step)
qed

lemma first_page_url_truthy: "first_page_url \<noteq> []"
  by (simp add: first_page_url_def)

lemma listing_of_loop:
  "getRepositoriesFromDockerHub up =
     (case fetchPages up [] (Some first_page_url) [] of
        None \<Rightarrow> None
      | Some (Inl e, tr) \<Rightarrow> Some (Inr [], tr)
      | Some (Inr repositories, tr) \<Rightarrow>
          Some (Inr (map (\<lambda>repo. DOCKER_HUB_NAMESPACE @ ''/'' @ repo) repositories), tr))"
  by (simp add: getRepositoriesFromDockerHub_def io_simps split: option.split sum.split prod.split)

text \<open>A loop that returns has walked a finite chain of pages, to its end or to a failure.\<close>

lemma returned_chain:
  assumes "fetchPages up0 acc0 nextUrl0 tr0 = Some r0"
  shows "\<not> truthy nextUrl0
   \<or> (\<exists>u ps. nextUrl0 = Some u \<and> (follows_cursor up0 u ps \<or> cursor_fails up0 u ps))"
proof (rule fetchPages.raw_induct
    [where P = "\<lambda>up acc nextUrl tr r. \<not> truthy nextUrl
       \<or> (\<exists>u ps. nextUrl = Some u \<and> (follows_cursor up u ps \<or> cursor_fails up u ps))",
     OF _ assms], goal_cases)
  case (1 fetch up acc nextUrl tr r)
  show ?case
  proof (cases "truthy nextUrl")
    case False
    then show ?thesis by simp
  next
    case True
    then obtain u where u: "nextUrl = Some u" "u \<noteq> []"
      by (auto simp add: truthy_def split: option.splits)
    show ?thesis
    proof (cases "hub_catalog up (page_request u)")
      case (Failed st)
      then have "cursor_fails up u []" by simp
      with u show ?thesis by blast
    next
      case (Resolved p)
      with 1(2) u True
      have again: "fetch up (acc @ results p) (next_url p) (tr @ [page_request u]) = Some r"
        by simp
      from 1(1) [OF again] show ?thesis
      proof
        assume "\<not> truthy (next_url p)"
        with Resolved have "follows_cursor up u [(u, p)]" by simp
        with u show ?thesis by blast
      next
        assume "\<exists>u' ps. next_url p = Some u'
                  \<and> (follows_cursor up u' ps \<or> cursor_fails up u' ps)"
        then obtain u' ps where n: "next_url p = Some u'"
          and c: "follows_cursor up u' ps \<or> cursor_fails up u' ps" by blast
        show ?thesis
        proof (cases "u' = []")
          case True
          with n have "\<not> truthy (next_url p)" by (simp add: truthy_def)
          with Resolved have "follows_cursor up u [(u, p)]" by simp
          with u show ?thesis by blast
        next
          case False
          from c show ?thesis
          proof
            assume f: "follows_cursor up u' ps"
            then obtain q qs where "ps = q # qs" by (cases ps) auto
            with f Resolved n False have "follows_cursor up u ((u, p) # ps)" by simp
            with u show ?thesis by blast
          next
            assume "cursor_fails up u' ps"
            with Resolved n False have "cursor_fails up u ((u, p) # ps)" by simp
            with u show ?thesis by blast
          qed
        qed
      qed
    qed
  qed
qed

lemma listing_returns_iff:
  "getRepositoriesFromDockerHub up \<noteq> None
     \<longleftrightarrow> (\<exists>ps. follows_cursor up first_page_url ps \<or> cursor_fails up first_page_url ps)"
proof
  assume "getRepositoriesFromDockerHub up \<noteq> None"
  then obtain r where "fetchPages up [] (Some first_page_url) [] = Some r"
    by (auto simp add: listing_of_loop split: option.splits)
  from returned_chain [OF this] first_page_url_truthy
  show "\<exists>ps. follows_cursor up first_page_url ps \<or> cursor_fails up first_page_url ps"
    by (simp add: truthy_def)
next
  assume "\<exists>ps. follows_cursor up first_page_url ps \<or> cursor_fails up first_page_url ps"
  then obtain ps where
    "follows_cursor up first_page_url ps \<or> cursor_fails up first_page_url ps" by blast
  then show "getRepositoriesFromDockerHub up \<noteq> None"
  proof
    assume "follows_cursor up first_page_url ps"
    from fetchPages_follows [OF first_page_url_truthy this, of "[]" "[]"]
    show ?thesis by (simp add: listing_of_loop)
  next
    assume "cursor_fails up first_page_url ps"
    from fetchPages_fails [OF first_page_url_truthy this, of "[]" "[]"]
    show ?thesis by (auto simp add: listing_of_loop)
  qed
qed

lemma listing_settles:
  "getRepositoriesFromDockerHub up = Some l \<Longrightarrow> \<exists>names tr. l = (Inr names, tr)"
  by (auto simp add: listing_of_loop split: option.splits sum.splits prod.splits)

lemma listed_prefixed:
  "getRepositoriesFromDockerHub up = Some (Inr names, tr) \<Longrightarrow> r \<in> set names \<Longrightarrow>
   \<exists>repo. r = DOCKER_HUB_NAMESPACE @ ''/'' @ repo"
  by (auto simp add: listing_of_loop split: option.splits sum.splits prod.splits)



section \<open>The resolution of one repository\<close>

lemma js_or_str_first_present: "js_or_str a d = first_present [a] d"
  by (cases a) (simp_all add: js_or_str_def)

lemma js_or_first_present: "first_present (js_or a b # vs) d = first_present (a # b # vs) d"
  by (cases a; cases b) (simp_all add: js_or_def truthy_def)

lemma strip_leading_Nil: "strip_leading ws [] = []"
proof -
  have "find (\<lambda>w. w \<noteq> [] \<and> take (length w) [] = w) ws = None"
    by (auto simp add: find_None_iff)
  then show ?thesis by (subst strip_leading.simps) simp
qed

lemma strip_leading_keeps:
  "c \<in> set s \<Longrightarrow> \<forall>w \<in> set ws. c \<notin> set w \<Longrightarrow> c \<in> set (strip_leading ws s)"
proof (induction ws s rule: strip_leading.induct)
  case (1 ws s)
  show ?case
  proof (cases "find (\<lambda>w. w \<noteq> [] \<and> take (length w) s = w) ws")
    case None
    with 1 show ?thesis by (subst strip_leading.simps) simp
  next
    case (Some w)
    then have w: "w \<in> set ws" "take (length w) s = w" by (auto simp add: find_Some_iff)
    from w(1) "1.prems"(2) have "c \<notin> set w" by blast
    with w(2) "1.prems"(1) have "c \<in> set (drop (length w) s)"
      by (metis Un_iff append_take_drop_id set_append)
    from "1.IH" [OF Some this "1.prems"(2)] Some show ?thesis
      by (subst strip_leading.simps) simp
  qed
qed

lemma trim_Nil: "trim [] = []"
  by (simp add: trim_def strip_leading_Nil)

lemma trim_keeps:
  "c \<in> set s \<Longrightarrow> \<forall>w \<in> set WHITE_SPACE. c \<notin> set w \<Longrightarrow> c \<in> set (trim s)"
  by (simp add: trim_def strip_leading_keeps)

lemma AppLocation_create_ok:
  "trim repoName \<noteq> [] \<Longrightarrow> AppLocation_create repoName = Inr \<lparr>location_value = repoName\<rparr>"
  by (auto simp add: AppLocation_create_def trim_Nil)

lemma AppLocation_create_blank:
  "trim repoName = [] \<Longrightarrow>
   AppLocation_create repoName = Inl (Error ''App location cannot be empty.'')"
  by (simp add: AppLocation_create_def)

lemma trim_listed: "trim (DOCKER_HUB_NAMESPACE @ ''/'' @ repo) \<noteq> []"
proof -
  have "CHR ''a'' \<in> set (DOCKER_HUB_NAMESPACE @ ''/'' @ repo)"
    by (simp add: DOCKER_HUB_NAMESPACE_def)
  moreover have "\<forall>w \<in> set WHITE_SPACE. CHR ''a'' \<notin> set w"
    by (simp add: WHITE_SPACE_def)
  ultimately have "CHR ''a'' \<in> set (trim (DOCKER_HUB_NAMESPACE @ ''/'' @ repo))"
    by (rule trim_keeps)
  then show ?thesis by auto
qed

lemma listed_accepted:
  "AppLocation_create (DOCKER_HUB_NAMESPACE @ ''/'' @ repo)
     = Inr \<lparr>location_value = DOCKER_HUB_NAMESPACE @ ''/'' @ repo\<rparr>"
  by (rule AppLocation_create_ok) (rule trim_listed)

lemma basicApp_ok:
  "trim repoName \<noteq> [] \<Longrightarrow>
   outcome (basicApp repoInfo repoName) =
     Inr (Some \<lparr>name = first_present [repo_name repoInfo] repoName,
                location = \<lparr>location_value = repoName\<rparr>,
                description = first_present [repo_description repoInfo] ''No description provided.'',
                pictureUrl = ''https://via.placeholder.com/150''\<rparr>)"
  by (simp add: basicApp_def AppLocation_create_ok outcome_await_Inr outcome_sync outcome_ret
      js_or_str_first_present)

lemma minimal_handler:
  "outcome (try_catch
            (await (sync (AppLocation_create repoName)) (\<lambda>loc.
               ret (Some \<lparr>name = repoName,
                          location = loc,
                          description = ''Repository information unavailable.'',
                          pictureUrl = ''https://via.placeholder.com/150''\<rparr>)))
            (\<lambda>locationError. ret None))
   = Inr (if trim repoName = [] then None else Some (minimalApp repoName))"
  by (simp add: AppLocation_create_ok AppLocation_create_blank sync_def io_simps minimalApp_def)

lemma processRepository_caught:
  "outcome (processRepository_try up repoName) = Inl e \<Longrightarrow>
   outcome (processRepository up repoName)
     = Inr (if trim repoName = [] then None else Some (minimalApp repoName))"
  by (simp add: processRepository_def outcome_try_catch_Inl minimal_handler)

lemma processRepository_passed:
  "outcome (processRepository_try up repoName) = Inr res \<Longrightarrow>
   outcome (processRepository up repoName) = Inr res"
  by (simp add: processRepository_def outcome_try_catch_Inr)

lemma processRepository_settles: "\<exists>res. outcome (processRepository up repoName) = Inr res"
  by (cases "outcome (processRepository_try up repoName)")
     (simp_all add: processRepository_caught processRepository_passed)

lemma absent_info:
  "outcome (getRepositoryInfo up r) = Inr None \<Longrightarrow> outcome (processRepository up r) = Inr None"
  by (simp add: processRepository_passed processRepository_try_def outcome_await outcome_ret)

text \<open>The \<open>try\<close> body along the path RepositoryInfo, tags, manifest, digest.\<close>

lemma try_to_config:
  assumes "outcome (getRepositoryInfo up repoName) = Inr (Some repoInfo)"
    and "\<not> reportsNoTags repoInfo"
    and "outcome (getManifest up repoName None) = Inr (Some m)"
    and "config m = Some c" and "digest c = Some d" and "d \<noteq> []"
  shows "outcome (processRepository_try up repoName) =
     outcome (await (getConfig up repoName d) (\<lambda>blob.
                               case blob of
                                 None \<Rightarrow> basicApp repoInfo repoName
                               | Some cfg \<Rightarrow>
                                   await (sync (AppLocation_create repoName)) (\<lambda>loc.
                                     ret (Some
                                       \<lparr>name =
                                          js_or_str
                                            (js_or (labelsOf cfg ''org.opencontainers.image.title'')
                                               (repo_name repoInfo))
                                            repoName,
                                        location = loc,
                                        description =
                                          js_or_str
                                            (js_or
                                               (labelsOf cfg ''org.opencontainers.image.description'')
                                               (repo_description repoInfo))
                                            ''No description provided.'',
                                        pictureUrl =
                                          js_or_str (labelsOf cfg ''com.app-store.picture-url'')
                                            ''https://via.placeholder.com/150''\<rparr>))))"
  using assms
  by (simp add: processRepository_try_def outcome_await_Inr truthy_def)

lemma try_shape:
  assumes "trim r \<noteq> []" and "outcome (getRepositoryInfo up r) = Inr (Some repoInfo)"
  shows "(\<exists>e. outcome (processRepository_try up r) = Inl e)
         \<or> (\<exists>app. outcome (processRepository_try up r) = Inr (Some app)
                \<and> location app = \<lparr>location_value = r\<rparr>)"
  using assms
  by (auto simp add: processRepository_try_def outcome_await outcome_ret outcome_sync
      basicApp_ok AppLocation_create_ok split: sum.split option.split)

lemma resolved_location:
  assumes "trim r \<noteq> []" and "outcome (getRepositoryInfo up r) = Inr (Some repoInfo)"
  shows "\<exists>app. outcome (processRepository up r) = Inr (Some app)
               \<and> location app = \<lparr>location_value = r\<rparr>"
  using try_shape [OF assms] assms(1)
  by (auto simp add: processRepository_caught processRepository_passed minimalApp_def)



section \<open>The batch\<close>

lemma promise_all_settled:
  "promise_all (map (\<lambda>repoName. outcome (processRepository up repoName)) names)
     = Inr (map (settled up) names)"
proof (induction names)
  case Nil
  then show ?case by simp
next
  case (Cons r names)
  from processRepository_settles [of up r] obtain res
    where "outcome (processRepository up r) = Inr res" by blast
  with Cons show ?case by (simp add: settled_def)
qed

lemma findAll_of_listing:
  "getRepositoriesFromDockerHub up = Some (Inr names, tr) \<Longrightarrow>
   findAll up = Some (Inr (filter_non_null (map (settled up) names)))"
  by (simp add: findAll_def outcome_def promise_all_settled [unfolded outcome_def])

lemma findAll_returns_iff:
  "findAll up = None \<longleftrightarrow> getRepositoriesFromDockerHub up = None"
  by (simp add: findAll_def)

lemma batch_locations:
  "\<forall>r \<in> set names. trim r \<noteq> [] \<Longrightarrow>
   map (\<lambda>a. location_value (location a)) (filter_non_null (map (settled up) names))
     = filter (\<lambda>r. outcome (getRepositoryInfo up r) \<noteq> Inr None) names"
proof (induction names)
  case Nil
  then show ?case by simp
next
  case (Cons r names)
  from getRepositoryInfo_settles [of up r] obtain found
    where f: "outcome (getRepositoryInfo up r) = Inr found" by blast
  show ?case
  proof (cases found)
    case None
    with f Cons show ?thesis by (simp add: settled_def absent_info)
  next
    case (Some repoInfo)
    from Cons.prems have "trim r \<noteq> []" by simp
    from resolved_location [OF this, of up repoInfo] f Some obtain app
      where "outcome (processRepository up r) = Inr (Some app)"
        "location app = \<lparr>location_value = r\<rparr>" by auto
    with f Some Cons show ?thesis by (simp add: settled_def)
  qed
qed

lemma batch_concat:
  "filter_non_null (map (settled up) names)
     = concat (map (\<lambda>r. case outcome (processRepository up r) of
                           Inr (Some app) \<Rightarrow> [app] | _ \<Rightarrow> []) names)"
  by (induction names) (auto simp add: settled_def split: sum.split option.split)



section \<open>The example registry, evaluated\<close>

lemma ex_tags_web: "hub_tags example_upstream (tags_request ''abdelrahmanelbadawy1/web'') = Resolved [''v1'', ''latest'']"
  by (simp add: example_upstream_def)

lemma ex_tags_db: "hub_tags example_upstream (tags_request ''abdelrahmanelbadawy1/db'') = Resolved []"
  by (simp add: example_upstream_def tags_request_def)

lemma ex_tags_cache: "hub_tags example_upstream (tags_request ''abdelrahmanelbadawy1/cache'') = Resolved [''1.0'', ''0.9'']"
  by (simp add: example_upstream_def tags_request_def)

lemma ex_repo_db:
  "hub_repo example_upstream (repo_request ''abdelrahmanelbadawy1/db'') =
     Resolved \<lparr>repo_name = Some ''db'', repo_description = Some ''A database'',
               star_count = Some 0, pull_count = Some 0,
               last_updated = None, is_private = Some False\<rparr>"
  by (simp add: example_upstream_def repo_request_def)

lemma ex_repo_web:
  "hub_repo example_upstream (repo_request ''abdelrahmanelbadawy1/web'') =
     Resolved \<lparr>repo_name = Some ''web'', repo_description = Some ''A web server'',
               star_count = Some 3, pull_count = Some 120,
               last_updated = None, is_private = Some False\<rparr>"
  by (simp add: example_upstream_def repo_request_def)

lemma ex_repo_cache:
  "hub_repo example_upstream (repo_request ''abdelrahmanelbadawy1/cache'') =
     Resolved \<lparr>repo_name = Some ''cache'', repo_description = None,
               star_count = None, pull_count = None,
               last_updated = None, is_private = None\<rparr>"
  by (simp add: example_upstream_def repo_request_def)

lemma ex_info_db:
  "outcome (getRepositoryInfo example_upstream ''abdelrahmanelbadawy1/db'') =
     Inr (Some \<lparr>repo_name = Some ''db'', repo_description = Some ''A database'',
                star_count = Some 0, pull_count = Some 0,
                last_updated = None, is_private = Some False,
                has_tags = Some False, available_tags = Some []\<rparr>)"
  by (simp add: getRepositoryInfo_eq ex_tags_db ex_repo_db outcome_def)

lemma ex_info_web:
  "outcome (getRepositoryInfo example_upstream ''abdelrahmanelbadawy1/web'') =
     Inr (Some \<lparr>repo_name = Some ''web'', repo_description = Some ''A web server'',
                star_count = Some 3, pull_count = Some 120,
                last_updated = None, is_private = Some False,
                has_tags = Some True, available_tags = Some [''v1'', ''latest'']\<rparr>)"
  by (simp add: getRepositoryInfo_eq ex_tags_web ex_repo_web outcome_def)

lemma ex_info_web': "outcome (getRepositoryInfo example_upstream ''abdelrahmanelbadawy1/web'') = Inr (Some example_info_web)"
  by (simp add: ex_info_web example_info_web_def)

lemma ex_info_cache:
  "outcome (getRepositoryInfo example_upstream ''abdelrahmanelbadawy1/cache'') =
     Inr (Some \<lparr>repo_name = Some ''cache'', repo_description = None,
                star_count = None, pull_count = None,
                last_updated = None, is_private = None,
                has_tags = Some True, available_tags = Some [''1.0'', ''0.9'']\<rparr>)"
  by (simp add: getRepositoryInfo_eq ex_tags_cache ex_repo_cache outcome_def)

lemma ex_names_not_blank:
  "trim ''abdelrahmanelbadawy1/web'' \<noteq> []" "trim ''abdelrahmanelbadawy1/db'' \<noteq> []"
  "trim ''abdelrahmanelbadawy1/cache'' \<noteq> []"
  using trim_listed [of "''web''"] trim_listed [of "''db''"] trim_listed [of "''cache''"]
  by (simp_all add: DOCKER_HUB_NAMESPACE_def)

lemma ex_manifest_web_anonymous:
  "registry_manifest example_upstream (manifest_request ''abdelrahmanelbadawy1/web'' ''latest'' None)
     = Failed (Some 401)"
  by (simp add: example_upstream_def manifest_request_def REGISTRY_API_BASE_URL_def)

lemma ex_manifest_web_bearer:
  "registry_manifest example_upstream
     (manifest_request ''abdelrahmanelbadawy1/web'' ''latest'' (Some ''t0k3n''))
     = Resolved (Some example_manifest)"
  by (simp add: example_upstream_def manifest_request_def REGISTRY_API_BASE_URL_def)

lemma ex_manifest_cache:
  "registry_manifest example_upstream (manifest_request ''abdelrahmanelbadawy1/cache'' ''1.0'' None)
     = Failed (Some 404)"
  by (simp add: example_upstream_def)

lemma ex_auth_token: "auth_token example_upstream req = Resolved \<lparr>token = Some ''t0k3n''\<rparr>"
  by (simp add: example_upstream_def)

lemma ex_token: "outcome (getDockerHubAuthToken example_upstream repo) = Inr ''t0k3n''"
  by (simp add: getDockerHubAuthToken_eq outcome_def example_upstream_def)

lemma ex_manifest_web_default:
  "outcome (getManifest example_upstream ''abdelrahmanelbadawy1/web'' None) = Inr (Some example_manifest)"
proof -
  have t: "outcome (getRepositoryTags example_upstream ''abdelrahmanelbadawy1/web'') = Inr [''v1'', ''latest'']"
    by (simp add: getRepositoryTags_eq outcome_def ex_tags_web)
  have s: "selectTag [''v1'', ''latest''] = ''latest''" by (simp add: selectTag_def)
  have "outcome (fetchManifest example_upstream ''abdelrahmanelbadawy1/web'' ''latest'') = Inr (Some example_manifest)"
    using ex_token [of "''abdelrahmanelbadawy1/web''"]
    by (simp add: fetchManifest_401 [OF ex_manifest_web_anonymous] ex_manifest_web_bearer)
       (simp add: outcome_def)
  then show ?thesis
    using getManifest_untagged [OF _ t, of None] by (simp add: truthy_def s outcome_def)
qed

lemma ex_config_web:
  "outcome (getConfig example_upstream repo dgst) = Inr (Some example_blob)"
proof -
  have "registry_blob example_upstream (blob_request repo dgst None) = Resolved (Some example_blob)"
    by (simp add: example_upstream_def)
  from getConfig_resolved [OF this] show ?thesis by (simp add: outcome_def)
qed

lemma ex_labels:
  "labelsOf example_blob ''org.opencontainers.image.title'' = Some ''Web Server''"
  "labelsOf example_blob ''org.opencontainers.image.description'' = None"
  "labelsOf example_blob ''com.app-store.picture-url'' = Some ''https://example.com/web.png''"
  by (simp_all add: labelsOf_def example_blob_def example_labels_def)

lemma ex_names_listed:
  "''abdelrahmanelbadawy1/web'' = DOCKER_HUB_NAMESPACE @ ''/'' @ ''web''"
  "''abdelrahmanelbadawy1/db'' = DOCKER_HUB_NAMESPACE @ ''/'' @ ''db''"
  "''abdelrahmanelbadawy1/cache'' = DOCKER_HUB_NAMESPACE @ ''/'' @ ''cache''"
  by (simp_all add: DOCKER_HUB_NAMESPACE_def)

lemma ex_blob_down_same:
  "getRepositoryInfo example_blob_down repo = getRepositoryInfo example_upstream repo"
  "getManifest example_blob_down repo tag = getManifest example_upstream repo tag"
  by (rule getRepositoryInfo_reads getManifest_reads; simp add: example_blob_down_def)+

lemma ex_blob_down_config:
  "outcome (getConfig example_blob_down repo dgst) = Inl (AxiosError (Some 500))"
proof -
  have "registry_blob example_blob_down (blob_request repo dgst None) = Failed (Some 500)"
    by (simp add: example_blob_down_def)
  from getConfig_other [OF this] show ?thesis by (simp add: outcome_def)
qed

lemma ex_record_db:
  "outcome (processRepository example_upstream ''abdelrahmanelbadawy1/db'') = Inr (Some example_app_db)"
proof -
  have "reportsNoTags \<lparr>repo_name = Some ''db'', repo_description = Some ''A database'',
                star_count = Some 0, pull_count = Some 0,
                last_updated = None, is_private = Some False,
                has_tags = Some False, available_tags = Some []\<rparr>"
    by (simp add: reportsNoTags_def)
  then have "outcome (processRepository_try example_upstream ''abdelrahmanelbadawy1/db'')
      = outcome (basicApp \<lparr>repo_name = Some ''db'', repo_description = Some ''A database'',
                star_count = Some 0, pull_count = Some 0,
                last_updated = None, is_private = Some False,
                has_tags = Some False, available_tags = Some []\<rparr> ''abdelrahmanelbadawy1/db'')"
    using ex_info_db by (simp add: processRepository_try_def outcome_await_Inr)
  then show ?thesis
    by (simp add: basicApp_ok ex_names_not_blank processRepository_passed example_app_db_def)
qed

lemma ex_record_web:
  "outcome (processRepository example_upstream ''abdelrahmanelbadawy1/web'') = Inr (Some example_app_web)"
proof -
  have t: "\<not> reportsNoTags example_info_web"
    by (simp add: reportsNoTags_def example_info_web_def)
  have "outcome (processRepository_try example_upstream ''abdelrahmanelbadawy1/web'')
          = Inr (Some example_app_web)"
    using try_to_config [OF ex_info_web' t ex_manifest_web_default,
        of "\<lparr>digest = Some ''sha256:c0ffee''\<rparr>" "''sha256:c0ffee''"]
    by (simp add: example_manifest_def outcome_await_Inr ex_config_web outcome_sync outcome_ret
        AppLocation_create_ok ex_names_not_blank ex_labels js_or_str_def js_or_def truthy_def
        example_app_web_def)
       (simp add: example_info_web_def)
  then show ?thesis by (rule processRepository_passed)
qed

lemma ex_try_cache:
  "outcome (processRepository_try example_upstream ''abdelrahmanelbadawy1/cache'') =
     Inl (Error (''Tag '' @ [CHR 0x27] @ ''1.0'' @ [CHR 0x27]
                 @ '' not found for repository abdelrahmanelbadawy1/cache''
                 @ ''. Available tags: 1.0, 0.9''))"
proof -
  have t: "outcome (getRepositoryTags example_upstream ''abdelrahmanelbadawy1/cache'')
             = Inr [''1.0'', ''0.9'']"
    by (simp add: getRepositoryTags_eq outcome_def ex_tags_cache)
  have s: "selectTag [''1.0'', ''0.9''] = ''1.0''" by (simp add: selectTag_def)
  have m: "outcome (getManifest example_upstream ''abdelrahmanelbadawy1/cache'' None) =
     Inl (Error (''Tag '' @ [CHR 0x27] @ ''1.0'' @ [CHR 0x27]
                 @ '' not found for repository abdelrahmanelbadawy1/cache''
                 @ ''. Available tags: 1.0, 0.9''))"
    using getManifest_untagged [OF _ t, of None] fetchManifest_404 [OF ex_manifest_cache]
    by (simp add: truthy_def s outcome_def ex_tags_cache)
  have r: "\<not> reportsNoTags \<lparr>repo_name = Some ''cache'', repo_description = None,
                star_count = None, pull_count = None,
                last_updated = None, is_private = None,
                has_tags = Some True, available_tags = Some [''1.0'', ''0.9'']\<rparr>"
    by (simp add: reportsNoTags_def)
  from ex_info_cache r m show ?thesis
    by (simp add: processRepository_try_def outcome_await_Inr outcome_await_Inl)
qed

lemma ex_record_cache:
  "outcome (processRepository example_upstream ''abdelrahmanelbadawy1/cache'')
     = Inr (Some (minimalApp ''abdelrahmanelbadawy1/cache''))"
  using processRepository_caught [OF ex_try_cache] by (simp add: ex_names_not_blank)

lemma ex_page1:
  "hub_catalog example_upstream (page_request first_page_url)
     = Resolved \<lparr>results = [''web''], next_url = Some example_page2\<rparr>"
  by (simp add: example_upstream_def page_request_def)

lemma ex_page2:
  "hub_catalog example_upstream (page_request example_page2)
     = Resolved \<lparr>results = [''db'', ''cache''], next_url = None\<rparr>"
  by (simp add: example_upstream_def page_request_def)
     (simp add: example_page2_def first_page_url_def DOCKER_HUB_NAMESPACE_def)

lemma ex_page2_truthy: "example_page2 \<noteq> []"
  by (simp add: example_page2_def)

lemma ex_follows:
  "follows_cursor example_upstream first_page_url
     [(first_page_url, \<lparr>results = [''web''], next_url = Some example_page2\<rparr>),
      (example_page2, \<lparr>results = [''db'', ''cache''], next_url = None\<rparr>)]"
  by (simp add: ex_page1 ex_page2 ex_page2_truthy truthy_def)

lemma ex_down_page1:
  "hub_catalog example_catalog_down (page_request first_page_url)
     = Resolved \<lparr>results = [''web''], next_url = Some example_page2\<rparr>"
  by (simp add: example_catalog_down_def page_request_def)

lemma ex_down_page2:
  "hub_catalog example_catalog_down (page_request example_page2) = Failed None"
  by (simp add: example_catalog_down_def page_request_def)
     (simp add: example_page2_def first_page_url_def DOCKER_HUB_NAMESPACE_def)

lemma ex_fails:
  "cursor_fails example_catalog_down first_page_url
     [(first_page_url, \<lparr>results = [''web''], next_url = Some example_page2\<rparr>)]"
  by (simp add: ex_down_page1 ex_down_page2 ex_page2_truthy)

lemma ex_listing:
  "getRepositoriesFromDockerHub example_upstream =
        Some (Inr [''abdelrahmanelbadawy1/web'', ''abdelrahmanelbadawy1/db'',
                   ''abdelrahmanelbadawy1/cache''],
              [page_request first_page_url, page_request example_page2])"
  using fetchPages_follows [OF first_page_url_truthy ex_follows, of "[]" "[]"]
  by (simp add: listing_of_loop DOCKER_HUB_NAMESPACE_def)

lemma ex_findAll:
  "findAll example_upstream =
     Some (Inr [example_app_web, example_app_db, minimalApp ''abdelrahmanelbadawy1/cache''])"
  by (simp add: findAll_of_listing [OF ex_listing] settled_def ex_record_web ex_record_db
      ex_record_cache)

lemma ex_gone_listing:
  "getRepositoriesFromDockerHub example_repos_gone =
        Some (Inr [''abdelrahmanelbadawy1/web'', ''abdelrahmanelbadawy1/db'',
                   ''abdelrahmanelbadawy1/cache''],
              [page_request first_page_url, page_request example_page2])"
proof -
  have "follows_cursor example_repos_gone first_page_url
     [(first_page_url, \<lparr>results = [''web''], next_url = Some example_page2\<rparr>),
      (example_page2, \<lparr>results = [''db'', ''cache''], next_url = None\<rparr>)]"
    using ex_page1 ex_page2 by (simp add: example_repos_gone_def ex_page2_truthy truthy_def)
  from fetchPages_follows [OF first_page_url_truthy this, of "[]" "[]"] show ?thesis
    by (simp add: listing_of_loop DOCKER_HUB_NAMESPACE_def)
qed

lemma ex_gone_info: "outcome (getRepositoryInfo example_repos_gone repo) = Inr None"
  by (simp add: getRepositoryInfo_eq outcome_def example_repos_gone_def)

lemma ex_gone_findAll: "findAll example_repos_gone = Some (Inr [])"
  by (simp add: findAll_of_listing [OF ex_gone_listing] settled_def absent_info [OF ex_gone_info])

lemma ex_blank_names:
  "AppLocation_create '' '' = Inl (Error ''App location cannot be empty.'')"
  "AppLocation_create [CHR 0xC2, CHR 0xA0] = Inl (Error ''App location cannot be empty.'')"
  by (simp_all add: AppLocation_create_def trim_def WHITE_SPACE_def strip_leading.simps)

lemma ex_nbsp_try:
  "outcome (processRepository_try example_any_repo [CHR 0xC2, CHR 0xA0])
     = Inl (Error ''App location cannot be empty.'')"
proof -
  have i: "outcome (getRepositoryInfo example_any_repo [CHR 0xC2, CHR 0xA0]) =
     Inr (Some \<lparr>repo_name = None, repo_description = None, star_count = None,
                pull_count = None, last_updated = None, is_private = None,
                has_tags = Some False, available_tags = Some []\<rparr>)"
    by (simp add: getRepositoryInfo_eq outcome_def example_any_repo_def)
       (simp add: example_upstream_def tags_request_def)
  have r: "reportsNoTags \<lparr>repo_name = None, repo_description = None, star_count = None,
                pull_count = None, last_updated = None, is_private = None,
                has_tags = Some False, available_tags = Some []\<rparr>"
    by (simp add: reportsNoTags_def)
  from i r show ?thesis
    by (simp add: processRepository_try_def outcome_await_Inr basicApp_def outcome_sync
        ex_blank_names outcome_await_Inl)
qed

lemma ex_blank_try:
  "outcome (processRepository_try example_any_repo '' '') = Inl (Error ''App location cannot be empty.'')"
proof -
  have b: "trim '' '' = []" by (simp add: trim_def WHITE_SPACE_def strip_leading.simps)
  have i: "outcome (getRepositoryInfo example_any_repo '' '') =
     Inr (Some \<lparr>repo_name = None, repo_description = None, star_count = None,
                pull_count = None, last_updated = None, is_private = None,
                has_tags = Some False, available_tags = Some []\<rparr>)"
    by (simp add: getRepositoryInfo_eq outcome_def example_any_repo_def)
       (simp add: example_upstream_def tags_request_def)
  have r: "reportsNoTags \<lparr>repo_name = None, repo_description = None, star_count = None,
                pull_count = None, last_updated = None, is_private = None,
                has_tags = Some False, available_tags = Some []\<rparr>"
    by (simp add: reportsNoTags_def)
  from i r show ?thesis
    by (simp add: processRepository_try_def outcome_await_Inr basicApp_def outcome_sync
        AppLocation_create_blank [OF b] outcome_await_Inl)
qed

lemma ex_blob_empty_same:
  "getRepositoryInfo example_blob_empty repo = getRepositoryInfo example_upstream repo"
  "getManifest example_blob_empty repo tag = getManifest example_upstream repo tag"
  by (rule getRepositoryInfo_reads getManifest_reads; simp add: example_blob_empty_def)+

lemma ex_blob_empty_config:
  "outcome (getConfig example_blob_empty repo dgst) = Inr None"
proof -
  have "registry_blob example_blob_empty (blob_request repo dgst None) = Resolved None"
    by (simp add: example_blob_empty_def)
  from getConfig_resolved [OF this] show ?thesis by (simp add: outcome_def)
qed

lemma ex_no_labels_same:
  "getRepositoryInfo example_no_labels repo = getRepositoryInfo example_upstream repo"
  "getManifest example_no_labels repo tag = getManifest example_upstream repo tag"
  by (rule getRepositoryInfo_reads getManifest_reads; simp add: example_no_labels_def)+

lemma ex_no_labels_config:
  "outcome (getConfig example_no_labels repo dgst) = Inr (Some \<lparr>blob_config = None\<rparr>)"
proof -
  have "registry_blob example_no_labels (blob_request repo dgst None)
          = Resolved (Some \<lparr>blob_config = None\<rparr>)"
    by (simp add: example_no_labels_def)
  from getConfig_resolved [OF this] show ?thesis by (simp add: outcome_def)
qed

lemma ex_empty_title_same:
  "getRepositoryInfo example_empty_title repo = getRepositoryInfo example_upstream repo"
  "getManifest example_empty_title repo tag = getManifest example_upstream repo tag"
  by (rule getRepositoryInfo_reads getManifest_reads; simp add: example_empty_title_def)+

lemma ex_empty_title_config:
  "outcome (getConfig example_empty_title repo dgst) = Inr (Some example_blob_empty_title)"
proof -
  have "registry_blob example_empty_title (blob_request repo dgst None)
          = Resolved (Some example_blob_empty_title)"
    by (simp add: example_empty_title_def)
  from getConfig_resolved [OF this] show ?thesis by (simp add: outcome_def)
qed

lemma ex_basic_web:
  "outcome (basicApp example_info_web ''abdelrahmanelbadawy1/web'')
     = Inr (Some \<lparr>name = ''web'',
                location = \<lparr>location_value = ''abdelrahmanelbadawy1/web''\<rparr>,
                description = ''A web server'',
                pictureUrl = ''https://via.placeholder.com/150''\<rparr>)"
  by (simp add: basicApp_ok ex_names_not_blank) (simp add: example_info_web_def)

lemma ex_endless_no_chain:
  "\<not> follows_cursor example_endless u ps \<and> \<not> cursor_fails example_endless u ps"
proof (induction ps arbitrary: u)
  case Nil
  then show ?case by (simp add: example_endless_def)
next
  case (Cons vp ps)
  obtain v p where vp: "vp = (v, p)" by (cases vp)
  have c: "\<not> cursor_fails example_endless u (vp # ps)"
    using Cons by (simp add: vp split: option.split)
  have f: "\<not> follows_cursor example_endless u (vp # ps)"
  proof (cases ps)
    case Nil
    then show ?thesis
      by (auto simp add: vp example_endless_def truthy_def first_page_url_truthy)
  next
    case (Cons q qs)
    with Cons.IH show ?thesis by (simp add: vp split: option.split)
  qed
  from c f show ?case by simp
qed




section \<open>The record of one repository\<close>

text \<open>
  Claim C1, amended. Take a listed repository (its name is the namespace, a slash and a
  repository name) with RepositoryInfo and tags and a manifest with a config digest. When
  the config-blob fetch fails, that is when \<open>getConfig\<close> rejects, the record is the
  minimal record: raw repository name as name and location, ``unavailable'' description,
  placeholder picture. The RepositoryInfo-only fallback record (name and description of
  RepositoryInfo, else raw name and placeholder) is what results when \<open>getConfig\<close>
  settles with an empty document.
\<close>

theorem config_failure_record:
  assumes "repoName = DOCKER_HUB_NAMESPACE @ ''/'' @ repo"
    and "outcome (getRepositoryInfo up repoName) = Inr (Some repoInfo)"
    and "has_tags repoInfo = Some True" and "available_tags repoInfo \<noteq> Some []"
    and "outcome (getManifest up repoName None) = Inr (Some m)"
    and "config m = Some c" and "digest c = Some d" and "d \<noteq> []"
  shows "(\<forall>e. outcome (getConfig up repoName d) = Inl e \<longrightarrow>
            outcome (processRepository up repoName) =
              Inr (Some \<lparr>name = repoName,
                         location = \<lparr>location_value = repoName\<rparr>,
                         description = ''Repository information unavailable.'',
                         pictureUrl = ''https://via.placeholder.com/150''\<rparr>))
         \<and> (outcome (getConfig up repoName d) = Inr None \<longrightarrow>
              outcome (processRepository up repoName) =
                Inr (Some \<lparr>name = first_present [repo_name repoInfo] repoName,
                           location = \<lparr>location_value = repoName\<rparr>,
                           description =
                             first_present [repo_description repoInfo]
                               ''No description provided.'',
                           pictureUrl = ''https://via.placeholder.com/150''\<rparr>))"
proof -
  have nb: "trim repoName \<noteq> []" unfolding assms(1) by (rule trim_listed)
  from assms(3,4) have tagged: "\<not> reportsNoTags repoInfo"
    by (auto simp add: reportsNoTags_def split: option.split)
  note body = try_to_config [OF assms(2) tagged assms(5) assms(6) assms(7) assms(8)]
  have rejected: "outcome (processRepository up repoName) =
              Inr (Some \<lparr>name = repoName,
                         location = \<lparr>location_value = repoName\<rparr>,
                         description = ''Repository information unavailable.'',
                         pictureUrl = ''https://via.placeholder.com/150''\<rparr>)"
    if "outcome (getConfig up repoName d) = Inl e" for e
  proof -
    from that have "outcome (processRepository_try up repoName) = Inl e"
      by (simp add: body outcome_await_Inl)
    from processRepository_caught [OF this] nb show ?thesis by (simp add: minimalApp_def)
  qed
  have empty: "outcome (processRepository up repoName) =
                Inr (Some \<lparr>name = first_present [repo_name repoInfo] repoName,
                           location = \<lparr>location_value = repoName\<rparr>,
                           description =
                             first_present [repo_description repoInfo]
                               ''No description provided.'',
                           pictureUrl = ''https://via.placeholder.com/150''\<rparr>)"
    if "outcome (getConfig up repoName d) = Inr None"
  proof -
    from that have "outcome (processRepository_try up repoName)
                      = outcome (basicApp repoInfo repoName)"
      by (simp add: body outcome_await_Inr)
    with nb show ?thesis by (simp add: basicApp_ok processRepository_passed)
  qed
  from rejected empty show ?thesis by blast
qed

theorem config_failure_record_witness:
  "''abdelrahmanelbadawy1/web'' = DOCKER_HUB_NAMESPACE @ ''/'' @ ''web''
   \<and> outcome (getRepositoryInfo example_blob_down ''abdelrahmanelbadawy1/web'') = Inr (Some example_info_web)
   \<and> outcome (getManifest example_blob_down ''abdelrahmanelbadawy1/web'' None) = Inr (Some example_manifest)
   \<and> outcome (getConfig example_blob_down ''abdelrahmanelbadawy1/web'' ''sha256:c0ffee'')
       = Inl (AxiosError (Some 500))
   \<and> outcome (processRepository example_blob_down ''abdelrahmanelbadawy1/web'') =
       Inr (Some \<lparr>name = ''abdelrahmanelbadawy1/web'',
                  location = \<lparr>location_value = ''abdelrahmanelbadawy1/web''\<rparr>,
                  description = ''Repository information unavailable.'',
                  pictureUrl = ''https://via.placeholder.com/150''\<rparr>)
   \<and> outcome (getConfig example_blob_empty ''abdelrahmanelbadawy1/web'' ''sha256:c0ffee'')
       = Inr None
   \<and> outcome (processRepository example_blob_empty ''abdelrahmanelbadawy1/web'') =
       Inr (Some \<lparr>name = ''web'',
                  location = \<lparr>location_value = ''abdelrahmanelbadawy1/web''\<rparr>,
                  description = ''A web server'',
                  pictureUrl = ''https://via.placeholder.com/150''\<rparr>)"
proof -
  have a: "has_tags example_info_web = Some True" "available_tags example_info_web \<noteq> Some []"
    "config example_manifest = Some \<lparr>digest = Some ''sha256:c0ffee''\<rparr>"
    "digest \<lparr>digest = Some ''sha256:c0ffee''\<rparr> = Some ''sha256:c0ffee''"
    "''sha256:c0ffee'' \<noteq> []"
    by (simp_all add: example_info_web_def example_manifest_def)
  have i: "outcome (getRepositoryInfo example_blob_down ''abdelrahmanelbadawy1/web'')
             = Inr (Some example_info_web)"
    by (simp add: ex_blob_down_same ex_info_web')
  have m: "outcome (getManifest example_blob_down ''abdelrahmanelbadawy1/web'' None)
             = Inr (Some example_manifest)"
    by (simp add: ex_blob_down_same ex_manifest_web_default)
  from config_failure_record [OF ex_names_listed(1) i a(1) a(2) m a(3) a(4) a(5)]
    ex_blob_down_config
  have down: "outcome (processRepository example_blob_down ''abdelrahmanelbadawy1/web'') =
       Inr (Some \<lparr>name = ''abdelrahmanelbadawy1/web'',
                  location = \<lparr>location_value = ''abdelrahmanelbadawy1/web''\<rparr>,
                  description = ''Repository information unavailable.'',
                  pictureUrl = ''https://via.placeholder.com/150''\<rparr>)"
    by blast
  have i': "outcome (getRepositoryInfo example_blob_empty ''abdelrahmanelbadawy1/web'')
             = Inr (Some example_info_web)"
    by (simp add: ex_blob_empty_same ex_info_web')
  have m': "outcome (getManifest example_blob_empty ''abdelrahmanelbadawy1/web'' None)
             = Inr (Some example_manifest)"
    by (simp add: ex_blob_empty_same ex_manifest_web_default)
  from config_failure_record [OF ex_names_listed(1) i' a(1) a(2) m' a(3) a(4) a(5)]
    ex_blob_empty_config
  have "outcome (processRepository example_blob_empty ''abdelrahmanelbadawy1/web'') =
       Inr (Some \<lparr>name = first_present [repo_name example_info_web] ''abdelrahmanelbadawy1/web'',
                  location = \<lparr>location_value = ''abdelrahmanelbadawy1/web''\<rparr>,
                  description =
                    first_present [repo_description example_info_web] ''No description provided.'',
                  pictureUrl = ''https://via.placeholder.com/150''\<rparr>)"
    by blast
  then have empty: "outcome (processRepository example_blob_empty ''abdelrahmanelbadawy1/web'') =
       Inr (Some \<lparr>name = ''web'',
                  location = \<lparr>location_value = ''abdelrahmanelbadawy1/web''\<rparr>,
                  description = ''A web server'',
                  pictureUrl = ''https://via.placeholder.com/150''\<rparr>)"
    by (simp add: example_info_web_def)
  from ex_names_listed(1) i m ex_blob_down_config down ex_blob_empty_config empty
  show ?thesis by blast
qed

text \<open>
  Claim C1 as stated asks for the RepositoryInfo-only fallback record when the blob fetch
  fails. With the blob store of the example answering 500, the record of \<open>web\<close> is the
  minimal record, not the fallback record made of the name and description of its
  RepositoryInfo.
\<close>

theorem config_failure_counterexample:
  "outcome (getRepositoryInfo example_blob_down ''abdelrahmanelbadawy1/web'') = Inr (Some example_info_web)
   \<and> has_tags example_info_web = Some True
   \<and> repo_name example_info_web = Some ''web''
   \<and> repo_description example_info_web = Some ''A web server''
   \<and> outcome (getManifest example_blob_down ''abdelrahmanelbadawy1/web'' None)
       = Inr (Some \<lparr>config = Some \<lparr>digest = Some ''sha256:c0ffee''\<rparr>\<rparr>)
   \<and> outcome (getConfig example_blob_down ''abdelrahmanelbadawy1/web'' ''sha256:c0ffee'')
       = Inl (AxiosError (Some 500))
   \<and> outcome (processRepository example_blob_down ''abdelrahmanelbadawy1/web'') =
       Inr (Some \<lparr>name = ''abdelrahmanelbadawy1/web'',
                  location = \<lparr>location_value = ''abdelrahmanelbadawy1/web''\<rparr>,
                  description = ''Repository information unavailable.'',
                  pictureUrl = ''https://via.placeholder.com/150''\<rparr>)
   \<and> outcome (processRepository example_blob_down ''abdelrahmanelbadawy1/web'') \<noteq>
       Inr (Some \<lparr>name = ''web'',
                  location = \<lparr>location_value = ''abdelrahmanelbadawy1/web''\<rparr>,
                  description = ''A web server'',
                  pictureUrl = ''https://via.placeholder.com/150''\<rparr>)"
proof -
  have i: "outcome (getRepositoryInfo example_blob_down ''abdelrahmanelbadawy1/web'')
             = Inr (Some example_info_web)"
    by (simp add: ex_blob_down_same ex_info_web')
  have m: "outcome (getManifest example_blob_down ''abdelrahmanelbadawy1/web'' None)
             = Inr (Some example_manifest)"
    by (simp add: ex_blob_down_same ex_manifest_web_default)
  have t: "\<not> reportsNoTags example_info_web"
    by (simp add: reportsNoTags_def example_info_web_def)
  have "outcome (processRepository_try example_blob_down ''abdelrahmanelbadawy1/web'')
          = Inl (AxiosError (Some 500))"
    using try_to_config [OF i t m, of "\<lparr>digest = Some ''sha256:c0ffee''\<rparr>" "''sha256:c0ffee''"]
    by (simp add: example_manifest_def outcome_await_Inl ex_blob_down_config)
  from processRepository_caught [OF this]
  have p: "outcome (processRepository example_blob_down ''abdelrahmanelbadawy1/web'') =
       Inr (Some \<lparr>name = ''abdelrahmanelbadawy1/web'',
                  location = \<lparr>location_value = ''abdelrahmanelbadawy1/web''\<rparr>,
                  description = ''Repository information unavailable.'',
                  pictureUrl = ''https://via.placeholder.com/150''\<rparr>)"
    by (simp add: ex_names_not_blank minimalApp_def)
  have f: "has_tags example_info_web = Some True \<and> repo_name example_info_web = Some ''web''
       \<and> repo_description example_info_web = Some ''A web server''"
    by (simp add: example_info_web_def)
  from i m ex_blob_down_config p f show ?thesis
    by (simp add: example_manifest_def)
qed

text \<open>
  Claim C2, amended. For a listed repository whose RepositoryInfo exists and reports zero
  tags, the record has the name of RepositoryInfo, else the raw repository name; the
  description of RepositoryInfo, else the placeholder \<open>No description provided.\<close>; the
  placeholder picture URL; and the raw repository name as location.
\<close>

theorem no_tags_record:
  assumes "repoName = DOCKER_HUB_NAMESPACE @ ''/'' @ repo"
    and "outcome (getRepositoryInfo up repoName) = Inr (Some repoInfo)"
    and "has_tags repoInfo = Some False \<or> available_tags repoInfo = Some []"
  shows "outcome (processRepository up repoName) =
     Inr (Some \<lparr>name = first_present [repo_name repoInfo] repoName,
                location = \<lparr>location_value = repoName\<rparr>,
                description = first_present [repo_description repoInfo] ''No description provided.'',
                pictureUrl = ''https://via.placeholder.com/150''\<rparr>)"
proof -
  have nb: "trim repoName \<noteq> []" unfolding assms(1) by (rule trim_listed)
  from assms(3) have "reportsNoTags repoInfo" by (auto simp add: reportsNoTags_def)
  with assms(2) have "outcome (processRepository_try up repoName)
                        = outcome (basicApp repoInfo repoName)"
    by (simp add: processRepository_try_def outcome_await_Inr)
  with nb show ?thesis
    by (simp add: basicApp_ok processRepository_passed)
qed

theorem no_tags_record_witness:
  "''abdelrahmanelbadawy1/db'' = DOCKER_HUB_NAMESPACE @ ''/'' @ ''db''
   \<and> outcome (getRepositoryInfo example_upstream ''abdelrahmanelbadawy1/db'') =
     Inr (Some \<lparr>repo_name = Some ''db'', repo_description = Some ''A database'',
                star_count = Some 0, pull_count = Some 0,
                last_updated = None, is_private = Some False,
                has_tags = Some False, available_tags = Some []\<rparr>)
   \<and> outcome (processRepository example_upstream ''abdelrahmanelbadawy1/db'') =
     Inr (Some \<lparr>name = ''db'',
                location = \<lparr>location_value = ''abdelrahmanelbadawy1/db''\<rparr>,
                description = ''A database'',
                pictureUrl = ''https://via.placeholder.com/150''\<rparr>)"
proof -
  from no_tags_record [OF ex_names_listed(2) ex_info_db]
  have "outcome (processRepository example_upstream ''abdelrahmanelbadawy1/db'') =
     Inr (Some \<lparr>name = ''db'',
                location = \<lparr>location_value = ''abdelrahmanelbadawy1/db''\<rparr>,
                description = ''A database'',
                pictureUrl = ''https://via.placeholder.com/150''\<rparr>)"
    by simp
  with ex_names_listed(2) ex_info_db show ?thesis by blast
qed

text \<open>
  Claim C2 as stated asks for the placeholder description whenever there are no tags.
  The repository \<open>db\<close> of the example has no tags and the description \<open>A database\<close>,
  which its record keeps.
\<close>

theorem no_tags_description_counterexample:
  "outcome (getRepositoryInfo example_upstream ''abdelrahmanelbadawy1/db'') =
     Inr (Some \<lparr>repo_name = Some ''db'', repo_description = Some ''A database'',
                star_count = Some 0, pull_count = Some 0,
                last_updated = None, is_private = Some False,
                has_tags = Some False, available_tags = Some []\<rparr>)
   \<and> outcome (processRepository example_upstream ''abdelrahmanelbadawy1/db'')
       = Inr (Some example_app_db)
   \<and> description example_app_db = ''A database''
   \<and> description example_app_db \<noteq> ''No description provided.''"
  by (simp add: ex_info_db ex_record_db) (simp add: example_app_db_def)

text \<open>
  Claim C8, amended. Take a listed repository resolved through the full chain:
  RepositoryInfo with tags, a manifest with a config digest, a config blob. The labels are
  the mapping \<open>config.Labels\<close> of the blob, and no labels at all when the blob has no
  \<open>config\<close> or no \<open>Labels\<close>. The name of the record is the title label when that label is
  present and not the empty string, else the name of RepositoryInfo when that is present
  and not empty, else the raw repository name; the description is the description label,
  else the description of RepositoryInfo, else the placeholder, in the same sense; the
  picture URL is the picture-url label, else the placeholder; and the location is the raw
  repository name, whatever the labels say.
\<close>

theorem full_chain_record:
  assumes "repoName = DOCKER_HUB_NAMESPACE @ ''/'' @ repo"
    and "outcome (getRepositoryInfo up repoName) = Inr (Some repoInfo)"
    and "has_tags repoInfo = Some True" and "available_tags repoInfo \<noteq> Some []"
    and "outcome (getManifest up repoName None) = Inr (Some m)"
    and "config m = Some c" and "digest c = Some d" and "d \<noteq> []"
    and "outcome (getConfig up repoName d) = Inr (Some cfg)"
  shows "(\<forall>cc labels. blob_config cfg = Some cc \<and> Labels cc = Some labels \<longrightarrow>
            outcome (processRepository up repoName) =
              Inr (Some
                \<lparr>name = first_present [labels ''org.opencontainers.image.title'',
                                       repo_name repoInfo] repoName,
                 location = \<lparr>location_value = repoName\<rparr>,
                 description =
                   first_present [labels ''org.opencontainers.image.description'',
                                  repo_description repoInfo] ''No description provided.'',
                 pictureUrl =
                   first_present [labels ''com.app-store.picture-url'']
                     ''https://via.placeholder.com/150''\<rparr>))
         \<and> (blob_config cfg = None \<or> (\<exists>cc. blob_config cfg = Some cc \<and> Labels cc = None) \<longrightarrow>
              outcome (processRepository up repoName) =
                Inr (Some
                  \<lparr>name = first_present [repo_name repoInfo] repoName,
                   location = \<lparr>location_value = repoName\<rparr>,
                   description =
                     first_present [repo_description repoInfo] ''No description provided.'',
                   pictureUrl = ''https://via.placeholder.com/150''\<rparr>))"
proof -
  have nb: "trim repoName \<noteq> []" unfolding assms(1) by (rule trim_listed)
  from assms(3,4) have tagged: "\<not> reportsNoTags repoInfo"
    by (auto simp add: reportsNoTags_def split: option.split)
  have built: "outcome (processRepository up repoName) =
     Inr (Some
       \<lparr>name = first_present [labelsOf cfg ''org.opencontainers.image.title'', repo_name repoInfo]
                 repoName,
        location = \<lparr>location_value = repoName\<rparr>,
        description =
          first_present [labelsOf cfg ''org.opencontainers.image.description'',
                         repo_description repoInfo] ''No description provided.'',
        pictureUrl =
          first_present [labelsOf cfg ''com.app-store.picture-url'']
            ''https://via.placeholder.com/150''\<rparr>)"
    using assms(9) nb
    by (simp add: processRepository_passed
        try_to_config [OF assms(2) tagged assms(5) assms(6) assms(7) assms(8)]
        outcome_await_Inr outcome_sync outcome_ret AppLocation_create_ok
        js_or_str_first_present js_or_first_present)
  have labelled: "outcome (processRepository up repoName) =
              Inr (Some
                \<lparr>name = first_present [labels ''org.opencontainers.image.title'',
                                       repo_name repoInfo] repoName,
                 location = \<lparr>location_value = repoName\<rparr>,
                 description =
                   first_present [labels ''org.opencontainers.image.description'',
                                  repo_description repoInfo] ''No description provided.'',
                 pictureUrl =
                   first_present [labels ''com.app-store.picture-url'']
                     ''https://via.placeholder.com/150''\<rparr>)"
    if "blob_config cfg = Some cc \<and> Labels cc = Some labels" for cc labels
  proof -
    from that have "labelsOf cfg = labels" by (simp add: labelsOf_def)
    with built show ?thesis by simp
  qed
  have bare: "outcome (processRepository up repoName) =
                Inr (Some
                  \<lparr>name = first_present [repo_name repoInfo] repoName,
                   location = \<lparr>location_value = repoName\<rparr>,
                   description =
                     first_present [repo_description repoInfo] ''No description provided.'',
                   pictureUrl = ''https://via.placeholder.com/150''\<rparr>)"
    if "blob_config cfg = None \<or> (\<exists>cc. blob_config cfg = Some cc \<and> Labels cc = None)"
  proof -
    from that have "labelsOf cfg = Map.empty" by (auto simp add: labelsOf_def)
    with built show ?thesis by simp
  qed
  from labelled bare show ?thesis by blast
qed

theorem full_chain_record_witness:
  "''abdelrahmanelbadawy1/web'' = DOCKER_HUB_NAMESPACE @ ''/'' @ ''web''
   \<and> outcome (getRepositoryInfo example_upstream ''abdelrahmanelbadawy1/web'') = Inr (Some example_info_web)
   \<and> outcome (getManifest example_upstream ''abdelrahmanelbadawy1/web'' None) = Inr (Some example_manifest)
   \<and> outcome (getConfig example_upstream ''abdelrahmanelbadawy1/web'' ''sha256:c0ffee'') = Inr (Some example_blob)
   \<and> blob_config example_blob = Some \<lparr>Labels = Some example_labels\<rparr>
   \<and> outcome (processRepository example_upstream ''abdelrahmanelbadawy1/web'') =
       Inr (Some \<lparr>name = ''Web Server'',
                  location = \<lparr>location_value = ''abdelrahmanelbadawy1/web''\<rparr>,
                  description = ''A web server'',
                  pictureUrl = ''https://example.com/web.png''\<rparr>)
   \<and> outcome (getConfig example_no_labels ''abdelrahmanelbadawy1/web'' ''sha256:c0ffee'')
       = Inr (Some \<lparr>blob_config = None\<rparr>)
   \<and> outcome (processRepository example_no_labels ''abdelrahmanelbadawy1/web'') =
       Inr (Some \<lparr>name = ''web'',
                  location = \<lparr>location_value = ''abdelrahmanelbadawy1/web''\<rparr>,
                  description = ''A web server'',
                  pictureUrl = ''https://via.placeholder.com/150''\<rparr>)"
proof -
  have a: "has_tags example_info_web = Some True" "available_tags example_info_web \<noteq> Some []"
    "config example_manifest = Some \<lparr>digest = Some ''sha256:c0ffee''\<rparr>"
    "digest \<lparr>digest = Some ''sha256:c0ffee''\<rparr> = Some ''sha256:c0ffee''"
    "''sha256:c0ffee'' \<noteq> []"
    by (simp_all add: example_info_web_def example_manifest_def)
  have b: "blob_config example_blob = Some \<lparr>Labels = Some example_labels\<rparr>"
    by (simp add: example_blob_def)
  have l: "blob_config example_blob = Some \<lparr>Labels = Some example_labels\<rparr>
           \<and> Labels \<lparr>Labels = Some example_labels\<rparr> = Some example_labels"
    by (simp add: example_blob_def)
  from full_chain_record [OF ex_names_listed(1) ex_info_web' a(1) a(2) ex_manifest_web_default
      a(3) a(4) a(5) ex_config_web] l
  have "outcome (processRepository example_upstream ''abdelrahmanelbadawy1/web'') =
              Inr (Some
                \<lparr>name = first_present [example_labels ''org.opencontainers.image.title'',
                                       repo_name example_info_web] ''abdelrahmanelbadawy1/web'',
                 location = \<lparr>location_value = ''abdelrahmanelbadawy1/web''\<rparr>,
                 description =
                   first_present [example_labels ''org.opencontainers.image.description'',
                                  repo_description example_info_web] ''No description provided.'',
                 pictureUrl =
                   first_present [example_labels ''com.app-store.picture-url'']
                     ''https://via.placeholder.com/150''\<rparr>)"
    by blast
  then have full: "outcome (processRepository example_upstream ''abdelrahmanelbadawy1/web'') =
       Inr (Some \<lparr>name = ''Web Server'',
                  location = \<lparr>location_value = ''abdelrahmanelbadawy1/web''\<rparr>,
                  description = ''A web server'',
                  pictureUrl = ''https://example.com/web.png''\<rparr>)"
    by (simp add: example_labels_def example_info_web_def)
  have i': "outcome (getRepositoryInfo example_no_labels ''abdelrahmanelbadawy1/web'')
             = Inr (Some example_info_web)"
    by (simp add: ex_no_labels_same ex_info_web')
  have m': "outcome (getManifest example_no_labels ''abdelrahmanelbadawy1/web'' None)
             = Inr (Some example_manifest)"
    by (simp add: ex_no_labels_same ex_manifest_web_default)
  have n: "blob_config \<lparr>blob_config = None\<rparr> = None" by simp
  from full_chain_record [OF ex_names_listed(1) i' a(1) a(2) m' a(3) a(4) a(5)
      ex_no_labels_config] n
  have "outcome (processRepository example_no_labels ''abdelrahmanelbadawy1/web'') =
                Inr (Some
                  \<lparr>name = first_present [repo_name example_info_web] ''abdelrahmanelbadawy1/web'',
                   location = \<lparr>location_value = ''abdelrahmanelbadawy1/web''\<rparr>,
                   description =
                     first_present [repo_description example_info_web]
                       ''No description provided.'',
                   pictureUrl = ''https://via.placeholder.com/150''\<rparr>)"
    by blast
  then have bare: "outcome (processRepository example_no_labels ''abdelrahmanelbadawy1/web'') =
       Inr (Some \<lparr>name = ''web'',
                  location = \<lparr>location_value = ''abdelrahmanelbadawy1/web''\<rparr>,
                  description = ''A web server'',
                  pictureUrl = ''https://via.placeholder.com/150''\<rparr>)"
    by (simp add: example_info_web_def)
  from ex_names_listed(1) ex_info_web' ex_manifest_web_default ex_config_web b full
    ex_no_labels_config bare
  show ?thesis by blast
qed

text \<open>
  Claim C8 as stated gives the record the title label whenever that label is present.
  In the registry below the blob of \<open>web\<close> carries a title label, the empty string; the
  name of the record is not that label but the name of RepositoryInfo.
\<close>

theorem full_chain_empty_title_counterexample:
  "outcome (getRepositoryInfo example_empty_title ''abdelrahmanelbadawy1/web'')
     = Inr (Some example_info_web)
   \<and> repo_name example_info_web = Some ''web''
   \<and> outcome (getManifest example_empty_title ''abdelrahmanelbadawy1/web'' None)
       = Inr (Some example_manifest)
   \<and> outcome (getConfig example_empty_title ''abdelrahmanelbadawy1/web'' ''sha256:c0ffee'')
       = Inr (Some example_blob_empty_title)
   \<and> blob_config example_blob_empty_title = Some \<lparr>Labels = Some example_labels_empty_title\<rparr>
   \<and> example_labels_empty_title ''org.opencontainers.image.title'' = Some ''''
   \<and> outcome (processRepository example_empty_title ''abdelrahmanelbadawy1/web'') =
       Inr (Some \<lparr>name = ''web'',
                  location = \<lparr>location_value = ''abdelrahmanelbadawy1/web''\<rparr>,
                  description = ''A web server'',
                  pictureUrl = ''https://via.placeholder.com/150''\<rparr>)
   \<and> ''web'' \<noteq> ''''"
proof -
  have i: "outcome (getRepositoryInfo example_empty_title ''abdelrahmanelbadawy1/web'')
             = Inr (Some example_info_web)"
    by (simp add: ex_empty_title_same ex_info_web')
  have m: "outcome (getManifest example_empty_title ''abdelrahmanelbadawy1/web'' None)
             = Inr (Some example_manifest)"
    by (simp add: ex_empty_title_same ex_manifest_web_default)
  have t: "\<not> reportsNoTags example_info_web"
    by (simp add: reportsNoTags_def example_info_web_def)
  have l: "labelsOf example_blob_empty_title ''org.opencontainers.image.title'' = Some ''''"
    "labelsOf example_blob_empty_title ''org.opencontainers.image.description'' = None"
    "labelsOf example_blob_empty_title ''com.app-store.picture-url'' = None"
    by (simp_all add: labelsOf_def example_blob_empty_title_def example_labels_empty_title_def)
  have "outcome (processRepository_try example_empty_title ''abdelrahmanelbadawy1/web'') =
       Inr (Some \<lparr>name = ''web'',
                  location = \<lparr>location_value = ''abdelrahmanelbadawy1/web''\<rparr>,
                  description = ''A web server'',
                  pictureUrl = ''https://via.placeholder.com/150''\<rparr>)"
    using try_to_config [OF i t m, of "\<lparr>digest = Some ''sha256:c0ffee''\<rparr>" "''sha256:c0ffee''"]
    by (simp add: example_manifest_def outcome_await_Inr ex_empty_title_config outcome_sync
        outcome_ret AppLocation_create_ok ex_names_not_blank l js_or_str_def js_or_def truthy_def)
       (simp add: example_info_web_def)
  then have p: "outcome (processRepository example_empty_title ''abdelrahmanelbadawy1/web'') =
       Inr (Some \<lparr>name = ''web'',
                  location = \<lparr>location_value = ''abdelrahmanelbadawy1/web''\<rparr>,
                  description = ''A web server'',
                  pictureUrl = ''https://via.placeholder.com/150''\<rparr>)"
    by (rule processRepository_passed)
  have f: "repo_name example_info_web = Some ''web''
       \<and> blob_config example_blob_empty_title = Some \<lparr>Labels = Some example_labels_empty_title\<rparr>
       \<and> example_labels_empty_title ''org.opencontainers.image.title'' = Some ''''"
    by (simp add: example_info_web_def example_blob_empty_title_def
        example_labels_empty_title_def)
  from i m ex_empty_title_config p f show ?thesis by simp
qed


section \<open>The batch and the endpoint\<close>

text \<open>
  Claim C3, amended. \<open>findAll\<close> never rejects, and neither does the controller. Whenever
  the catalog of the namespace is a finite chain of pages (ending in a page without
  cursor or in a failed page fetch), \<open>findAll\<close> settles with a list of records and the
  endpoint answers 200 with one JSON object for each record. When a page fetch of the
  listing fails, the list is empty and the endpoint answers 200 with the empty array. The
  only upstream for which \<open>findAll\<close> does not settle is a catalog whose cursors never
  end: then the listing loop keeps running, and no error is raised either.
\<close>

theorem findAll_never_rejects:
  "(\<forall>e. findAll up \<noteq> Some (Inl e))
   \<and> (\<forall>e. getAllAppsController up \<noteq> Some (Inl e))
   \<and> ((\<exists>ps. follows_cursor up first_page_url ps \<or> cursor_fails up first_page_url ps) \<longrightarrow>
         (\<exists>apps reply. findAll up = Some (Inr apps)
            \<and> getAllAppsController up = Some (Inr reply)
            \<and> status reply = 200
            \<and> map dto_name (json reply) = map name apps
            \<and> map dto_location (json reply) = map (\<lambda>a. location_value (location a)) apps
            \<and> map dto_description (json reply) = map description apps
            \<and> map dto_pictureUrl (json reply) = map pictureUrl apps))
   \<and> (\<forall>ps. cursor_fails up first_page_url ps \<longrightarrow>
         findAll up = Some (Inr [])
         \<and> getAllAppsController up = Some (Inr \<lparr>status = 200, json = []\<rparr>))
   \<and> (findAll up = None \<longleftrightarrow>
         \<not> (\<exists>ps. follows_cursor up first_page_url ps \<or> cursor_fails up first_page_url ps))"
proof -
  have shape: "findAll up = None \<or> (\<exists>apps. findAll up = Some (Inr apps))"
  proof (cases "getRepositoriesFromDockerHub up")
    case None
    then show ?thesis by (simp add: findAll_returns_iff)
  next
    case (Some l)
    from listing_settles [OF Some] obtain names tr where "l = (Inr names, tr)" by blast
    with Some findAll_of_listing [of up names tr] show ?thesis by simp
  qed
  have a: "\<forall>e. findAll up \<noteq> Some (Inl e)" using shape by auto
  have b: "\<forall>e. getAllAppsController up \<noteq> Some (Inl e)"
    using shape by (auto simp add: getAllAppsController_def getAllApps_def)
  have c: "(\<exists>ps. follows_cursor up first_page_url ps \<or> cursor_fails up first_page_url ps) \<longrightarrow>
         (\<exists>apps reply. findAll up = Some (Inr apps)
            \<and> getAllAppsController up = Some (Inr reply)
            \<and> status reply = 200
            \<and> map dto_name (json reply) = map name apps
            \<and> map dto_location (json reply) = map (\<lambda>a. location_value (location a)) apps
            \<and> map dto_description (json reply) = map description apps
            \<and> map dto_pictureUrl (json reply) = map pictureUrl apps)"
  proof
    assume "\<exists>ps. follows_cursor up first_page_url ps \<or> cursor_fails up first_page_url ps"
    with listing_returns_iff [of up] have "getRepositoriesFromDockerHub up \<noteq> None"
      by blast
    then obtain listing where l: "getRepositoriesFromDockerHub up = Some listing"
      by auto
    from listing_settles [OF l] obtain names tr where "listing = (Inr names, tr)" by blast
    with l findAll_of_listing [of up names tr]
    have f: "findAll up = Some (Inr (filter_non_null (map (settled up) names)))" by simp
    then show "\<exists>apps reply. findAll up = Some (Inr apps)
            \<and> getAllAppsController up = Some (Inr reply)
            \<and> status reply = 200
            \<and> map dto_name (json reply) = map name apps
            \<and> map dto_location (json reply) = map (\<lambda>a. location_value (location a)) apps
            \<and> map dto_description (json reply) = map description apps
            \<and> map dto_pictureUrl (json reply) = map pictureUrl apps"
      by (simp add: getAllAppsController_def getAllApps_def comp_def)
  qed
  have d: "\<forall>ps. cursor_fails up first_page_url ps \<longrightarrow>
         findAll up = Some (Inr [])
         \<and> getAllAppsController up = Some (Inr \<lparr>status = 200, json = []\<rparr>)"
  proof (intro allI impI)
    fix ps
    assume "cursor_fails up first_page_url ps"
    from fetchPages_fails [OF first_page_url_truthy this, of "[]" "[]"]
    obtain tr where "getRepositoriesFromDockerHub up = Some (Inr [], tr)"
      by (auto simp add: listing_of_loop)
    from findAll_of_listing [OF this]
    show "findAll up = Some (Inr [])
         \<and> getAllAppsController up = Some (Inr \<lparr>status = 200, json = []\<rparr>)"
      by (simp add: getAllAppsController_def getAllApps_def)
  qed
  have e: "findAll up = None \<longleftrightarrow>
         \<not> (\<exists>ps. follows_cursor up first_page_url ps \<or> cursor_fails up first_page_url ps)"
  proof -
    have "getRepositoriesFromDockerHub up = None \<longleftrightarrow>
         \<not> (\<exists>ps. follows_cursor up first_page_url ps \<or> cursor_fails up first_page_url ps)"
      using listing_returns_iff [of up] by blast
    then show ?thesis by (simp only: findAll_returns_iff)
  qed
  from a b c d e show ?thesis by blast
qed

theorem findAll_never_rejects_witness:
  "follows_cursor example_upstream first_page_url
     [(first_page_url, \<lparr>results = [''web''], next_url = Some example_page2\<rparr>),
      (example_page2, \<lparr>results = [''db'', ''cache''], next_url = None\<rparr>)]
   \<and> findAll example_upstream =
        Some (Inr [example_app_web, example_app_db, minimalApp ''abdelrahmanelbadawy1/cache''])
   \<and> map_option (map_sum id status) (getAllAppsController example_upstream) = Some (Inr 200)
   \<and> map_option (map_sum id (\<lambda>reply. map dto_name (json reply)))
         (getAllAppsController example_upstream)
       = Some (Inr [''Web Server'', ''db'', ''abdelrahmanelbadawy1/cache''])
   \<and> cursor_fails example_catalog_down first_page_url
        [(first_page_url, \<lparr>results = [''web''], next_url = Some example_page2\<rparr>)]
   \<and> findAll example_catalog_down = Some (Inr [])
   \<and> getAllAppsController example_catalog_down = Some (Inr \<lparr>status = 200, json = []\<rparr>)"
proof -
  from findAll_never_rejects [of example_upstream] ex_follows
  obtain apps reply where r: "findAll example_upstream = Some (Inr apps)"
    "getAllAppsController example_upstream = Some (Inr reply)" "status reply = 200"
    "map dto_name (json reply) = map name apps"
    by blast
  from r(1) have apps: "apps = [example_app_web, example_app_db,
                               minimalApp ''abdelrahmanelbadawy1/cache'']"
    by (simp add: ex_findAll)
  from r have a: "map_option (map_sum id status) (getAllAppsController example_upstream)
                  = Some (Inr 200)" by simp
  from r(2,4) have n: "map_option (map_sum id (\<lambda>reply. map dto_name (json reply)))
         (getAllAppsController example_upstream)
       = Some (Inr [''Web Server'', ''db'', ''abdelrahmanelbadawy1/cache''])"
    by (simp add: apps example_app_web_def example_app_db_def minimalApp_def)
  from findAll_never_rejects [of example_catalog_down] ex_fails
  have b: "findAll example_catalog_down = Some (Inr [])
         \<and> getAllAppsController example_catalog_down = Some (Inr \<lparr>status = 200, json = []\<rparr>)"
    by blast
  from a n b ex_follows ex_findAll ex_fails show ?thesis by blast
qed

text \<open>
  Claim C3 as stated promises an array and a 200 for every outcome of the upstream calls.
  In the registry whose every catalog page is fetched without failure and points back to
  the first page, the listing loop never ends: \<open>findAll\<close> does not settle and the
  endpoint does not answer.
\<close>

theorem findAll_endless_counterexample:
  "hub_catalog example_endless (page_request first_page_url)
     = Resolved \<lparr>results = [''web''], next_url = Some first_page_url\<rparr>
   \<and> findAll example_endless = None
   \<and> getAllAppsController example_endless = None"
proof -
  have "getRepositoriesFromDockerHub example_endless = None"
    using listing_returns_iff [of example_endless] ex_endless_no_chain by blast
  then have "findAll example_endless = None" by (simp only: findAll_returns_iff)
  then show ?thesis
    by (simp add: getAllAppsController_def getAllApps_def example_endless_def)
qed

text \<open>
  Claim C9. The resolution of one repository never rejects. When a step of it throws,
  the outcome is decided by \<open>AppLocation.create\<close> on the raw repository name: if it
  accepts the name, the result is the minimal record, with the raw name as name and as
  location and the ``unavailable'' description; if it throws (the raw name is empty or
  white space only), the repository is omitted. The batch is the concatenation, in
  listing order, of what each repository's own resolution yields: one record or nothing,
  whatever happens to the others.
\<close>

theorem repository_failure_isolated:
  "(\<exists>res. outcome (processRepository up repoName) = Inr res)
   \<and> (\<forall>e. outcome (processRepository_try up repoName) = Inl e \<longrightarrow>
         (\<forall>loc. AppLocation_create repoName = Inr loc \<longrightarrow>
            location_value loc = repoName
            \<and> outcome (processRepository up repoName) =
                Inr (Some \<lparr>name = repoName,
                           location = loc,
                           description = ''Repository information unavailable.'',
                           pictureUrl = ''https://via.placeholder.com/150''\<rparr>))
         \<and> (\<forall>err. AppLocation_create repoName = Inl err \<longrightarrow>
                outcome (processRepository up repoName) = Inr None))
   \<and> (\<forall>names tr. getRepositoriesFromDockerHub up = Some (Inr names, tr) \<longrightarrow>
         findAll up =
           Some (Inr (concat (map (\<lambda>r. case outcome (processRepository up r) of
                                           Inr (Some app) \<Rightarrow> [app] | _ \<Rightarrow> []) names))))"
proof (intro conjI allI impI)
  show "\<exists>res. outcome (processRepository up repoName) = Inr res"
    by (rule processRepository_settles)
next
  fix e loc
  assume "AppLocation_create repoName = Inr loc"
  then show "location_value loc = repoName"
    by (auto simp add: AppLocation_create_def split: if_splits)
next
  fix e loc
  assume t: "outcome (processRepository_try up repoName) = Inl e"
    and l: "AppLocation_create repoName = Inr loc"
  from l have "trim repoName \<noteq> []" and "loc = \<lparr>location_value = repoName\<rparr>"
    by (auto simp add: AppLocation_create_def split: if_splits)
  with processRepository_caught [OF t]
  show "outcome (processRepository up repoName) =
                Inr (Some \<lparr>name = repoName,
                           location = loc,
                           description = ''Repository information unavailable.'',
                           pictureUrl = ''https://via.placeholder.com/150''\<rparr>)"
    by (simp add: minimalApp_def)
next
  fix e err
  assume t: "outcome (processRepository_try up repoName) = Inl e"
    and l: "AppLocation_create repoName = Inl err"
  from l have "trim repoName = []"
    by (auto simp add: AppLocation_create_def trim_Nil split: if_splits)
  with processRepository_caught [OF t]
  show "outcome (processRepository up repoName) = Inr None" by simp
next
  fix names tr
  assume "getRepositoriesFromDockerHub up = Some (Inr names, tr)"
  then show "findAll up =
           Some (Inr (concat (map (\<lambda>r. case outcome (processRepository up r) of
                                           Inr (Some app) \<Rightarrow> [app] | _ \<Rightarrow> []) names)))"
    by (simp add: findAll_of_listing batch_concat)
qed

theorem repository_failure_isolated_witness:
  "outcome (processRepository_try example_upstream ''abdelrahmanelbadawy1/cache'') =
     Inl (Error (''Tag '' @ [CHR 0x27] @ ''1.0'' @ [CHR 0x27]
                 @ '' not found for repository abdelrahmanelbadawy1/cache''
                 @ ''. Available tags: 1.0, 0.9''))
   \<and> AppLocation_create ''abdelrahmanelbadawy1/cache''
       = Inr \<lparr>location_value = ''abdelrahmanelbadawy1/cache''\<rparr>
   \<and> outcome (processRepository example_upstream ''abdelrahmanelbadawy1/cache'') =
       Inr (Some \<lparr>name = ''abdelrahmanelbadawy1/cache'',
                  location = \<lparr>location_value = ''abdelrahmanelbadawy1/cache''\<rparr>,
                  description = ''Repository information unavailable.'',
                  pictureUrl = ''https://via.placeholder.com/150''\<rparr>)
   \<and> findAll example_upstream =
        Some (Inr [example_app_web, example_app_db, minimalApp ''abdelrahmanelbadawy1/cache''])
   \<and> outcome (processRepository_try example_any_repo '' '')
       = Inl (Error ''App location cannot be empty.'')
   \<and> AppLocation_create '' '' = Inl (Error ''App location cannot be empty.'')
   \<and> outcome (processRepository example_any_repo '' '') = Inr None
   \<and> outcome (processRepository_try example_any_repo [CHR 0xC2, CHR 0xA0])
       = Inl (Error ''App location cannot be empty.'')
   \<and> AppLocation_create [CHR 0xC2, CHR 0xA0] = Inl (Error ''App location cannot be empty.'')
   \<and> outcome (processRepository example_any_repo [CHR 0xC2, CHR 0xA0]) = Inr None"
proof -
  have l: "AppLocation_create ''abdelrahmanelbadawy1/cache''
       = Inr \<lparr>location_value = ''abdelrahmanelbadawy1/cache''\<rparr>"
    by (rule AppLocation_create_ok) (rule ex_names_not_blank)
  from repository_failure_isolated [of example_upstream "''abdelrahmanelbadawy1/cache''"]
    ex_try_cache l
  have a: "outcome (processRepository example_upstream ''abdelrahmanelbadawy1/cache'') =
       Inr (Some \<lparr>name = ''abdelrahmanelbadawy1/cache'',
                  location = \<lparr>location_value = ''abdelrahmanelbadawy1/cache''\<rparr>,
                  description = ''Repository information unavailable.'',
                  pictureUrl = ''https://via.placeholder.com/150''\<rparr>)"
    by blast
  from repository_failure_isolated [of example_upstream "''abdelrahmanelbadawy1/cache''"]
    ex_listing
  have "findAll example_upstream =
           Some (Inr (concat (map (\<lambda>r. case outcome (processRepository example_upstream r) of
                                           Inr (Some app) \<Rightarrow> [app] | _ \<Rightarrow> [])
              [''abdelrahmanelbadawy1/web'', ''abdelrahmanelbadawy1/db'',
                   ''abdelrahmanelbadawy1/cache''])))"
    by blast
  then have b: "findAll example_upstream =
        Some (Inr [example_app_web, example_app_db, minimalApp ''abdelrahmanelbadawy1/cache''])"
    by (simp add: ex_record_web ex_record_db ex_record_cache)
  from repository_failure_isolated [of example_any_repo "'' ''"] ex_blank_try ex_blank_names(1)
  have d: "outcome (processRepository example_any_repo '' '') = Inr None"
    by blast
  from repository_failure_isolated [of example_any_repo "[CHR 0xC2, CHR 0xA0]"] ex_nbsp_try
    ex_blank_names(2)
  have n: "outcome (processRepository example_any_repo [CHR 0xC2, CHR 0xA0]) = Inr None"
    by blast
  from a b d n l ex_try_cache ex_blank_try ex_nbsp_try ex_blank_names show ?thesis by blast
qed

text \<open>
  Claim C10, amended. Every name of the listing is the namespace, a slash and a repository
  name, so it is not blank and \<open>AppLocation.create\<close> accepts it. For such a name the
  resolution yields no record exactly when RepositoryInfo is absent: the handler that
  returns \<open>null\<close> after a failed minimal record is never the reason. \<open>findAll\<close> yields,
  in listing order, exactly one record for every listed name with RepositoryInfo, and none
  for the others.
\<close>

theorem listed_names_records:
  assumes "getRepositoriesFromDockerHub up = Some (Inr names, tr)"
  shows "(\<forall>r \<in> set names.
            (\<exists>repo. r = DOCKER_HUB_NAMESPACE @ ''/'' @ repo)
            \<and> trim r \<noteq> []
            \<and> AppLocation_create r = Inr \<lparr>location_value = r\<rparr>
            \<and> (outcome (processRepository up r) = Inr None
                 \<longleftrightarrow> outcome (getRepositoryInfo up r) = Inr None))
         \<and> (\<exists>apps. findAll up = Some (Inr apps)
               \<and> map (\<lambda>a. location_value (location a)) apps
                   = filter (\<lambda>r. outcome (getRepositoryInfo up r) \<noteq> Inr None) names)"
proof -
  have nb: "trim r \<noteq> []" if "r \<in> set names" for r
    using listed_prefixed [OF assms that] trim_listed by auto
  have each: "(\<exists>repo. r = DOCKER_HUB_NAMESPACE @ ''/'' @ repo)
            \<and> trim r \<noteq> []
            \<and> AppLocation_create r = Inr \<lparr>location_value = r\<rparr>
            \<and> (outcome (processRepository up r) = Inr None
                 \<longleftrightarrow> outcome (getRepositoryInfo up r) = Inr None)" if r: "r \<in> set names" for r
  proof -
    from getRepositoryInfo_settles [of up r] obtain found
      where f: "outcome (getRepositoryInfo up r) = Inr found" by blast
    have "outcome (processRepository up r) = Inr None
                 \<longleftrightarrow> outcome (getRepositoryInfo up r) = Inr None"
    proof (cases found)
      case None
      with f show ?thesis by (simp add: absent_info)
    next
      case (Some repoInfo)
      with resolved_location [OF nb [OF r], of up repoInfo] f show ?thesis by auto
    qed
    with listed_prefixed [OF assms r] nb [OF r] show ?thesis
      by (simp add: AppLocation_create_ok)
  qed
  have "map (\<lambda>a. location_value (location a)) (filter_non_null (map (settled up) names))
                   = filter (\<lambda>r. outcome (getRepositoryInfo up r) \<noteq> Inr None) names"
    using nb by (intro batch_locations) blast
  with each findAll_of_listing [OF assms] show ?thesis by blast
qed

theorem listed_names_records_witness:
  "getRepositoriesFromDockerHub example_upstream =
        Some (Inr [''abdelrahmanelbadawy1/web'', ''abdelrahmanelbadawy1/db'',
                   ''abdelrahmanelbadawy1/cache''],
              [page_request first_page_url, page_request example_page2])
   \<and> AppLocation_create ''abdelrahmanelbadawy1/db''
       = Inr \<lparr>location_value = ''abdelrahmanelbadawy1/db''\<rparr>
   \<and> map_option (map_sum id (map (\<lambda>a. location_value (location a)))) (findAll example_upstream)
       = Some (Inr [''abdelrahmanelbadawy1/web'', ''abdelrahmanelbadawy1/db'',
                    ''abdelrahmanelbadawy1/cache''])"
proof -
  note inst = listed_names_records [OF ex_listing]
  from inst have a: "AppLocation_create ''abdelrahmanelbadawy1/db''
       = Inr \<lparr>location_value = ''abdelrahmanelbadawy1/db''\<rparr>"
    by simp
  from inst obtain apps where "findAll example_upstream = Some (Inr apps)"
    "map (\<lambda>a. location_value (location a)) apps
       = filter (\<lambda>r. outcome (getRepositoryInfo example_upstream r) \<noteq> Inr None)
           [''abdelrahmanelbadawy1/web'', ''abdelrahmanelbadawy1/db'',
            ''abdelrahmanelbadawy1/cache'']"
    by blast
  then have b: "map_option (map_sum id (map (\<lambda>a. location_value (location a))))
                  (findAll example_upstream)
       = Some (Inr [''abdelrahmanelbadawy1/web'', ''abdelrahmanelbadawy1/db'',
                    ''abdelrahmanelbadawy1/cache''])"
    by (simp add: ex_info_web ex_info_db ex_info_cache)
  from a b ex_listing show ?thesis by blast
qed

text \<open>
  Claim C10 as stated promises one record for every listed name. When the Hub has no
  entry for the listed repositories, three names are listed and no record is produced.
\<close>

theorem listed_names_records_counterexample:
  "map_option outcome (getRepositoriesFromDockerHub example_repos_gone) =
        Some (Inr [''abdelrahmanelbadawy1/web'', ''abdelrahmanelbadawy1/db'',
                   ''abdelrahmanelbadawy1/cache''])
   \<and> findAll example_repos_gone = Some (Inr [])"
  by (simp add: ex_gone_listing ex_gone_findAll outcome_def)



section \<open>The listing\<close>

text \<open>
  Claim C4. \<open>getRepositoriesFromDockerHub\<close> starts at the first page of the namespace and
  follows the \<open>next\<close> cursor of each answer. When the chain of pages ends with a page
  without cursor, it returns the results of all pages, concatenated in page order and
  each prefixed with the namespace, after one request for each page. When the fetch of a
  page fails, whatever was fetched before, it returns the empty list. It returns in no
  other way.
\<close>

theorem listRepositories_pages:
  "(follows_cursor up first_page_url ps \<longrightarrow>
      getRepositoriesFromDockerHub up =
        Some (Inr (map (\<lambda>repo. DOCKER_HUB_NAMESPACE @ ''/'' @ repo)
                     (concat (map (\<lambda>vp. results (snd vp)) ps))),
              map (\<lambda>vp. page_request (fst vp)) ps))
   \<and> (cursor_fails up first_page_url ps \<longrightarrow>
        map_option outcome (getRepositoriesFromDockerHub up) = Some (Inr []))
   \<and> (getRepositoriesFromDockerHub up \<noteq> None \<longrightarrow>
        (\<exists>qs. follows_cursor up first_page_url qs \<or> cursor_fails up first_page_url qs))"
proof (intro conjI impI)
  assume "follows_cursor up first_page_url ps"
  from fetchPages_follows [OF first_page_url_truthy this, of "[]" "[]"]
  show "getRepositoriesFromDockerHub up =
        Some (Inr (map (\<lambda>repo. DOCKER_HUB_NAMESPACE @ ''/'' @ repo)
                     (concat (map (\<lambda>vp. results (snd vp)) ps))),
              map (\<lambda>vp. page_request (fst vp)) ps)"
    by (simp add: listing_of_loop)
next
  assume "cursor_fails up first_page_url ps"
  from fetchPages_fails [OF first_page_url_truthy this, of "[]" "[]"]
  show "map_option outcome (getRepositoriesFromDockerHub up) = Some (Inr [])"
    by (auto simp add: listing_of_loop outcome_def)
next
  assume "getRepositoriesFromDockerHub up \<noteq> None"
  with listing_returns_iff [of up]
  show "\<exists>qs. follows_cursor up first_page_url qs \<or> cursor_fails up first_page_url qs"
    by blast
qed

theorem listRepositories_pages_witness:
  "follows_cursor example_upstream first_page_url
     [(first_page_url, \<lparr>results = [''web''], next_url = Some example_page2\<rparr>),
      (example_page2, \<lparr>results = [''db'', ''cache''], next_url = None\<rparr>)]
   \<and> getRepositoriesFromDockerHub example_upstream =
        Some (Inr [''abdelrahmanelbadawy1/web'', ''abdelrahmanelbadawy1/db'',
                   ''abdelrahmanelbadawy1/cache''],
              [page_request first_page_url, page_request example_page2])
   \<and> cursor_fails example_catalog_down first_page_url
        [(first_page_url, \<lparr>results = [''web''], next_url = Some example_page2\<rparr>)]
   \<and> map_option outcome (getRepositoriesFromDockerHub example_catalog_down) = Some (Inr [])"
proof -
  from listRepositories_pages [of example_upstream
      "[(first_page_url, \<lparr>results = [''web''], next_url = Some example_page2\<rparr>),
        (example_page2, \<lparr>results = [''db'', ''cache''], next_url = None\<rparr>)]"] ex_follows
  have a: "getRepositoriesFromDockerHub example_upstream =
        Some (Inr [''abdelrahmanelbadawy1/web'', ''abdelrahmanelbadawy1/db'',
                   ''abdelrahmanelbadawy1/cache''],
              [page_request first_page_url, page_request example_page2])"
    by (simp add: DOCKER_HUB_NAMESPACE_def)
  from listRepositories_pages [of example_catalog_down
      "[(first_page_url, \<lparr>results = [''web''], next_url = Some example_page2\<rparr>)]"] ex_fails
  have b: "map_option outcome (getRepositoriesFromDockerHub example_catalog_down) = Some (Inr [])"
    by blast
  from a b ex_follows ex_fails show ?thesis by blast
qed



section \<open>The manifest fetch\<close>

text \<open>The manifest fetch for a fixed tag, by the answer to the request without credentials.\<close>

lemma fetchManifest_starts:
  "\<exists>rest. trace (fetchManifest up repo tag) = manifest_request repo tag None # rest"
proof (cases "registry_manifest up (manifest_request repo tag None)")
  case (Resolved m)
  then show ?thesis by (simp add: fetchManifest_resolved trace_def)
next
  case (Failed st)
  consider "st = Some 401" | "st = Some 404" | "st \<noteq> Some 401" "st \<noteq> Some 404" by blast
  then show ?thesis
  proof cases
    case 1
    with Failed show ?thesis
      by (simp add: fetchManifest_401 trace_def split: sum.split response.split)
  next
    case 2
    with Failed show ?thesis by (simp add: fetchManifest_404 trace_def)
  next
    case 3
    with Failed show ?thesis by (simp add: fetchManifest_other trace_def)
  qed
qed

lemma fetchManifest_not_401:
  assumes "registry_manifest up (manifest_request repo tag None) \<noteq> Failed (Some 401)"
  shows "filter (\<lambda>r. url r = url (manifest_request repo tag None))
           (trace (fetchManifest up repo tag)) = [manifest_request repo tag None]
         \<and> token_request repo \<notin> set (trace (fetchManifest up repo tag))"
proof (cases "registry_manifest up (manifest_request repo tag None)")
  case (Resolved m)
  then show ?thesis
    by (simp add: fetchManifest_resolved trace_def token_request_not_manifest [symmetric])
next
  case (Failed st)
  with assms have n401: "st \<noteq> Some 401" by simp
  show ?thesis
  proof (cases "st = Some 404")
    case True
    with Failed show ?thesis
      by (simp add: fetchManifest_404 trace_def manifest_url_not_tags
          token_request_not_manifest [symmetric] token_request_not_tags [symmetric])
  next
    case False
    with Failed n401 show ?thesis
      by (simp add: fetchManifest_other trace_def token_request_not_manifest [symmetric])
  qed
qed

lemma fetchManifest_401_token:
  assumes "registry_manifest up (manifest_request repo tag None) = Failed (Some 401)"
  shows "fetchManifest up repo tag =
     (case auth_token up (token_request repo) of
        Failed st \<Rightarrow>
          (Inl (AxiosError st), [manifest_request repo tag None, token_request repo])
      | Resolved d \<Rightarrow>
          (case (if truthy (token d) then token d else None) of
             None \<Rightarrow>
               (Inl (Error ''No token received from Docker Hub auth service''),
                [manifest_request repo tag None, token_request repo])
           | Some t \<Rightarrow>
               (case registry_manifest up (manifest_request repo tag (Some t)) of
                  Resolved m \<Rightarrow> Inr m | Failed st \<Rightarrow> Inl (AxiosError st),
                [manifest_request repo tag None, token_request repo,
                 manifest_request repo tag (Some t)])))"
  by (simp add: fetchManifest_401 [OF assms] getDockerHubAuthToken_eq outcome_def truthy_def
      split: response.split option.split)

lemma getManifest_runs:
  assumes "outcome (getRepositoryTags up repo) = Inr available"
    and "(tag = Some requested \<and> requested \<noteq> [] \<and> pre = [])
         \<or> (\<not> truthy tag \<and> available \<noteq> []
             \<and> requested = (if ''latest'' \<in> set available then ''latest'' else hd available)
             \<and> pre = [tags_request repo])"
  shows "getManifest up repo tag =
           (outcome (fetchManifest up repo requested),
            pre @ trace (fetchManifest up repo requested))"
  using assms(2)
proof
  assume "tag = Some requested \<and> requested \<noteq> [] \<and> pre = []"
  then show ?thesis by (simp add: getManifest_tagged outcome_def trace_def)
next
  assume a: "\<not> truthy tag \<and> available \<noteq> []
             \<and> requested = (if ''latest'' \<in> set available then ''latest'' else hd available)
             \<and> pre = [tags_request repo]"
  then have "selectTag available = requested" by (simp add: selectTag_def)
  with a getManifest_untagged [of tag up repo available] assms(1) show ?thesis by simp
qed

text \<open>
  Claim C5. Let the tag be the one passed in, or the one \<open>getManifest\<close> selected after
  the tag listing request when none was passed. \<open>getManifest\<close> then sends the manifest
  request for that tag without an \<open>Authorization\<close> header. The token service is asked if
  and only if the answer to that request is HTTP 401, and its URL carries the scope
  \<open>repository:<name>:pull\<close>. After any other answer, the request without credentials
  stays the only manifest request. After a 401, when the token service answers with a
  non-empty token, exactly three requests follow the tag resolution: the first attempt,
  the token request, and one retry of the same URL and \<open>Accept\<close> header with that token
  as bearer; the call settles with the document of the retry, or rejects with the retry's
  failure, and nothing is sent after it. When the token service fails or answers without
  a token, the call rejects and there is no retry.
\<close>

theorem getManifest_token_retry:
  assumes listing: "outcome (getRepositoryTags up repo) = Inr available"
    and requested:
      "(tag = Some requested \<and> requested \<noteq> [] \<and> pre = [])
       \<or> (\<not> truthy tag \<and> available \<noteq> []
           \<and> requested = (if ''latest'' \<in> set available then ''latest'' else hd available)
           \<and> pre = [tags_request repo])"
    and run: "run = getManifest up repo tag"
    and first: "first = manifest_request repo requested None"
    and retry: "retry = (\<lambda>t. manifest_request repo requested (Some t))"
  shows
   "take (Suc (length pre)) (trace run) = pre @ [first]
    \<and> map_of (headers first) ''Authorization'' = None
    \<and> (token_request repo \<in> set (trace run) \<longleftrightarrow> registry_manifest up first = Failed (Some 401))
    \<and> url (token_request repo)
        = ''https://auth.docker.io/token?service=registry.docker.io&scope=repository:''
            @ repo @ '':pull''
    \<and> (registry_manifest up first \<noteq> Failed (Some 401) \<longrightarrow>
          filter (\<lambda>r. url r = url first) (trace run) = [first])
    \<and> (registry_manifest up first = Failed (Some 401) \<longrightarrow>
          (\<forall>d t. auth_token up (token_request repo) = Resolved d \<and> token d = Some t \<and> t \<noteq> [] \<longrightarrow>
             trace run = pre @ [first, token_request repo, retry t]
             \<and> url (retry t) = url first
             \<and> map_of (headers (retry t)) ''Authorization'' = Some (''Bearer '' @ t)
             \<and> map_of (headers (retry t)) ''Accept'' = map_of (headers first) ''Accept''
             \<and> (\<forall>m. registry_manifest up (retry t) = Resolved m \<longrightarrow> outcome run = Inr m)
             \<and> (\<forall>st. registry_manifest up (retry t) = Failed st \<longrightarrow>
                   outcome run = Inl (AxiosError st)))
          \<and> (\<forall>st. auth_token up (token_request repo) = Failed st \<longrightarrow>
                 run = (Inl (AxiosError st), pre @ [first, token_request repo]))
          \<and> (\<forall>d. auth_token up (token_request repo) = Resolved d \<and> \<not> truthy (token d) \<longrightarrow>
                 run = (Inl (Error ''No token received from Docker Hub auth service''),
                        pre @ [first, token_request repo])))"
proof -
  define f where "f = fetchManifest up repo requested"
  have run': "run = (outcome f, pre @ trace f)"
    unfolding run f_def by (rule getManifest_runs [OF listing requested])
  have tr: "trace run = pre @ trace f" and oc: "outcome run = outcome f"
    by (simp_all add: run' trace_def outcome_def)
  have pre: "pre = [] \<or> pre = [tags_request repo]" using requested by blast
  have pre_token: "token_request repo \<notin> set pre"
    using pre token_request_not_tags [of repo repo] by auto
  have pre_url: "filter (\<lambda>r. url r = url first) pre = []"
    using pre by (auto simp add: first manifest_url_not_tags)
  from fetchManifest_starts [of up repo requested] obtain rest
    where rest: "trace f = first # rest" by (auto simp add: f_def first)
  have c1: "take (Suc (length pre)) (trace run) = pre @ [first]"
    by (simp add: tr rest)
  have c2: "map_of (headers first) ''Authorization'' = None"
    by (simp add: first manifest_request_bearer)
  have c4: "url (token_request repo)
        = ''https://auth.docker.io/token?service=registry.docker.io&scope=repository:''
            @ repo @ '':pull''"
    by (simp add: token_request_def)
  have other: "registry_manifest up first \<noteq> Failed (Some 401) \<Longrightarrow>
      filter (\<lambda>r. url r = url first) (trace run) = [first]
      \<and> token_request repo \<notin> set (trace run)"
    using fetchManifest_not_401 [of up repo requested] pre_token pre_url
    by (simp add: tr f_def first)
  have unauth: "registry_manifest up first = Failed (Some 401) \<Longrightarrow>
      f = (case auth_token up (token_request repo) of
        Failed st \<Rightarrow> (Inl (AxiosError st), [first, token_request repo])
      | Resolved d \<Rightarrow>
          (case (if truthy (token d) then token d else None) of
             None \<Rightarrow>
               (Inl (Error ''No token received from Docker Hub auth service''),
                [first, token_request repo])
           | Some t \<Rightarrow>
               (case registry_manifest up (retry t) of
                  Resolved m \<Rightarrow> Inr m | Failed st \<Rightarrow> Inl (AxiosError st),
                [first, token_request repo, retry t])))"
    unfolding f_def first retry by (rule fetchManifest_401_token)
  have c3: "token_request repo \<in> set (trace run) \<longleftrightarrow> registry_manifest up first = Failed (Some 401)"
  proof
    assume "token_request repo \<in> set (trace run)"
    with other show "registry_manifest up first = Failed (Some 401)" by blast
  next
    assume "registry_manifest up first = Failed (Some 401)"
    from unauth [OF this] have "token_request repo \<in> set (trace f)"
      by (simp add: trace_def split: response.split option.split)
    then show "token_request repo \<in> set (trace run)" by (simp add: tr)
  qed
  have c5: "registry_manifest up first \<noteq> Failed (Some 401) \<longrightarrow>
          filter (\<lambda>r. url r = url first) (trace run) = [first]"
    using other by blast
  have c6: "registry_manifest up first = Failed (Some 401) \<longrightarrow>
          (\<forall>d t. auth_token up (token_request repo) = Resolved d \<and> token d = Some t \<and> t \<noteq> [] \<longrightarrow>
             trace run = pre @ [first, token_request repo, retry t]
             \<and> url (retry t) = url first
             \<and> map_of (headers (retry t)) ''Authorization'' = Some (''Bearer '' @ t)
             \<and> map_of (headers (retry t)) ''Accept'' = map_of (headers first) ''Accept''
             \<and> (\<forall>m. registry_manifest up (retry t) = Resolved m \<longrightarrow> outcome run = Inr m)
             \<and> (\<forall>st. registry_manifest up (retry t) = Failed st \<longrightarrow>
                   outcome run = Inl (AxiosError st)))
          \<and> (\<forall>st. auth_token up (token_request repo) = Failed st \<longrightarrow>
                 run = (Inl (AxiosError st), pre @ [first, token_request repo]))
          \<and> (\<forall>d. auth_token up (token_request repo) = Resolved d \<and> \<not> truthy (token d) \<longrightarrow>
                 run = (Inl (Error ''No token received from Docker Hub auth service''),
                        pre @ [first, token_request repo]))"
  proof (intro impI conjI allI)
    fix d t
    assume u: "registry_manifest up first = Failed (Some 401)"
      and t: "auth_token up (token_request repo) = Resolved d \<and> token d = Some t \<and> t \<noteq> []"
    from unauth [OF u] t
    have r: "f = (case registry_manifest up (retry t) of
                      Resolved m \<Rightarrow> Inr m | Failed st \<Rightarrow> Inl (AxiosError st),
                    [first, token_request repo, retry t])" by (simp add: truthy_def)
    show "trace run = pre @ [first, token_request repo, retry t]"
      by (simp add: run' r trace_def)
    show "url (retry t) = url first" by (simp add: retry first manifest_request_bearer)
    show "map_of (headers (retry t)) ''Authorization'' = Some (''Bearer '' @ t)"
      by (simp add: retry manifest_request_bearer)
    show "map_of (headers (retry t)) ''Accept'' = map_of (headers first) ''Accept''"
      by (simp add: retry first manifest_request_bearer)
    { fix m assume "registry_manifest up (retry t) = Resolved m"
      then show "outcome run = Inr m" by (simp add: run' r outcome_def) }
    { fix st assume "registry_manifest up (retry t) = Failed st"
      then show "outcome run = Inl (AxiosError st)" by (simp add: run' r outcome_def) }
  next
    fix st
    assume u: "registry_manifest up first = Failed (Some 401)"
      and e: "auth_token up (token_request repo) = Failed st"
    from unauth [OF u] e show "run = (Inl (AxiosError st), pre @ [first, token_request repo])"
      by (simp add: run' outcome_def trace_def)
  next
    fix d
    assume u: "registry_manifest up first = Failed (Some 401)"
      and e: "auth_token up (token_request repo) = Resolved d \<and> \<not> truthy (token d)"
    from unauth [OF u] e
    show "run = (Inl (Error ''No token received from Docker Hub auth service''),
                 pre @ [first, token_request repo])"
      by (simp add: run' outcome_def trace_def)
  qed
  from c1 c2 c3 c4 c5 c6 show ?thesis by blast
qed

theorem getManifest_token_retry_witness:
  "outcome (getRepositoryTags example_upstream ''abdelrahmanelbadawy1/web'') = Inr [''v1'', ''latest'']
   \<and> registry_manifest example_upstream
        (manifest_request ''abdelrahmanelbadawy1/web'' ''latest'' None) = Failed (Some 401)
   \<and> auth_token example_upstream (token_request ''abdelrahmanelbadawy1/web'')
       = Resolved \<lparr>token = Some ''t0k3n''\<rparr>
   \<and> trace (getManifest example_upstream ''abdelrahmanelbadawy1/web'' None)
       = [tags_request ''abdelrahmanelbadawy1/web'',
          manifest_request ''abdelrahmanelbadawy1/web'' ''latest'' None,
          token_request ''abdelrahmanelbadawy1/web'',
          manifest_request ''abdelrahmanelbadawy1/web'' ''latest'' (Some ''t0k3n'')]
   \<and> outcome (getManifest example_upstream ''abdelrahmanelbadawy1/web'' None)
       = Inr (Some example_manifest)
   \<and> registry_manifest example_upstream
        (manifest_request ''abdelrahmanelbadawy1/cache'' ''1.0'' None) = Failed (Some 404)
   \<and> token_request ''abdelrahmanelbadawy1/cache''
       \<notin> set (trace (getManifest example_upstream ''abdelrahmanelbadawy1/cache'' (Some ''1.0'')))
   \<and> filter (\<lambda>r. url r = url (manifest_request ''abdelrahmanelbadawy1/cache'' ''1.0'' None))
         (trace (getManifest example_upstream ''abdelrahmanelbadawy1/cache'' (Some ''1.0'')))
       = [manifest_request ''abdelrahmanelbadawy1/cache'' ''1.0'' None]"
proof -
  have web: "outcome (getRepositoryTags example_upstream ''abdelrahmanelbadawy1/web'')
               = Inr [''v1'', ''latest'']"
    by (simp add: getRepositoryTags_eq outcome_def ex_tags_web)
  have selected: "(None = Some ''latest'' \<and> ''latest'' \<noteq> []
                   \<and> [tags_request ''abdelrahmanelbadawy1/web''] = [])
       \<or> (\<not> truthy None \<and> [''v1'', ''latest''] \<noteq> []
           \<and> ''latest'' = (if ''latest'' \<in> set [''v1'', ''latest''] then ''latest''
                            else hd [''v1'', ''latest''])
           \<and> [tags_request ''abdelrahmanelbadawy1/web'']
               = [tags_request ''abdelrahmanelbadawy1/web''])"
    by (simp add: truthy_def)
  note inst = getManifest_token_retry [OF web selected refl refl refl]
  have tok: "auth_token example_upstream (token_request ''abdelrahmanelbadawy1/web'')
               = Resolved \<lparr>token = Some ''t0k3n''\<rparr>
             \<and> token \<lparr>token = Some ''t0k3n''\<rparr> = Some ''t0k3n'' \<and> ''t0k3n'' \<noteq> []"
    by (simp add: ex_auth_token)
  from inst ex_manifest_web_anonymous tok
  have tr: "trace (getManifest example_upstream ''abdelrahmanelbadawy1/web'' None)
       = [tags_request ''abdelrahmanelbadawy1/web''] @
         [manifest_request ''abdelrahmanelbadawy1/web'' ''latest'' None,
          token_request ''abdelrahmanelbadawy1/web'',
          manifest_request ''abdelrahmanelbadawy1/web'' ''latest'' (Some ''t0k3n'')]"
    by blast
  from inst ex_manifest_web_anonymous tok ex_manifest_web_bearer
  have oc: "outcome (getManifest example_upstream ''abdelrahmanelbadawy1/web'' None)
       = Inr (Some example_manifest)"
    by blast
  have cache: "outcome (getRepositoryTags example_upstream ''abdelrahmanelbadawy1/cache'')
                 = Inr [''1.0'', ''0.9'']"
    by (simp add: getRepositoryTags_eq outcome_def ex_tags_cache)
  have passed: "(Some ''1.0'' = Some ''1.0'' \<and> ''1.0'' \<noteq> [] \<and> [] = [])
       \<or> (\<not> truthy (Some ''1.0'') \<and> [''1.0'', ''0.9''] \<noteq> []
           \<and> ''1.0'' = (if ''latest'' \<in> set [''1.0'', ''0.9''] then ''latest''
                         else hd [''1.0'', ''0.9''])
           \<and> [] = [tags_request ''abdelrahmanelbadawy1/cache''])"
    by simp
  have other: "registry_manifest example_upstream
        (manifest_request ''abdelrahmanelbadawy1/cache'' ''1.0'' None) \<noteq> Failed (Some 401)"
    by (simp add: ex_manifest_cache)
  note inst' = getManifest_token_retry [OF cache passed refl refl refl]
  from inst' other
  have no_token: "token_request ''abdelrahmanelbadawy1/cache''
       \<notin> set (trace (getManifest example_upstream ''abdelrahmanelbadawy1/cache'' (Some ''1.0'')))"
    by blast
  from inst' other
  have once: "filter (\<lambda>r. url r = url (manifest_request ''abdelrahmanelbadawy1/cache'' ''1.0'' None))
         (trace (getManifest example_upstream ''abdelrahmanelbadawy1/cache'' (Some ''1.0'')))
       = [manifest_request ''abdelrahmanelbadawy1/cache'' ''1.0'' None]"
    by blast
  from tr have tr': "trace (getManifest example_upstream ''abdelrahmanelbadawy1/web'' None)
       = [tags_request ''abdelrahmanelbadawy1/web'',
          manifest_request ''abdelrahmanelbadawy1/web'' ''latest'' None,
          token_request ''abdelrahmanelbadawy1/web'',
          manifest_request ''abdelrahmanelbadawy1/web'' ''latest'' (Some ''t0k3n'')]"
    by simp
  from web ex_manifest_web_anonymous ex_auth_token [of "token_request ''abdelrahmanelbadawy1/web''"]
    tr' oc ex_manifest_cache no_token once
  show ?thesis by blast
qed

text \<open>
  Claim C6. When the manifest request for a known tag is answered with HTTP 404,
  \<open>getManifest\<close> is to reject with an error that names the missing tag and lists the
  available tags. The code does so only when the 404 answers the request without
  credentials. In the registry below the tag listing of \<open>web\<close> has \<open>latest\<close>, the registry
  answers the request without credentials with 401, the token service hands out a token,
  and the registry answers the bearer with 404: \<open>getManifest\<close> rejects with the bare
  transport error of the retry, which names neither the tag nor the available tags, and
  the tag listing is not asked again.
\<close>

theorem getManifest_retry_not_found:
  "outcome (getRepositoryTags example_tag_gone ''abdelrahmanelbadawy1/web'')
     = Inr [''v1'', ''latest'']
   \<and> registry_manifest example_tag_gone
        (manifest_request ''abdelrahmanelbadawy1/web'' ''latest'' None) = Failed (Some 401)
   \<and> auth_token example_tag_gone (token_request ''abdelrahmanelbadawy1/web'')
       = Resolved \<lparr>token = Some ''t0k3n''\<rparr>
   \<and> registry_manifest example_tag_gone
        (manifest_request ''abdelrahmanelbadawy1/web'' ''latest'' (Some ''t0k3n''))
       = Failed (Some 404)
   \<and> getManifest example_tag_gone ''abdelrahmanelbadawy1/web'' None
       = (Inl (AxiosError (Some 404)),
          [tags_request ''abdelrahmanelbadawy1/web'',
           manifest_request ''abdelrahmanelbadawy1/web'' ''latest'' None,
           token_request ''abdelrahmanelbadawy1/web'',
           manifest_request ''abdelrahmanelbadawy1/web'' ''latest'' (Some ''t0k3n'')])
   \<and> getManifest example_tag_gone ''abdelrahmanelbadawy1/web'' (Some ''latest'')
       = (Inl (AxiosError (Some 404)),
          [manifest_request ''abdelrahmanelbadawy1/web'' ''latest'' None,
           token_request ''abdelrahmanelbadawy1/web'',
           manifest_request ''abdelrahmanelbadawy1/web'' ''latest'' (Some ''t0k3n'')])"
proof -
  have tags: "outcome (getRepositoryTags example_tag_gone ''abdelrahmanelbadawy1/web'')
                = Inr [''v1'', ''latest'']"
    by (simp add: getRepositoryTags_eq outcome_def example_tag_gone_def ex_tags_web)
  have anon: "registry_manifest example_tag_gone
        (manifest_request ''abdelrahmanelbadawy1/web'' ''latest'' None) = Failed (Some 401)"
    by (simp add: example_tag_gone_def manifest_request_def)
  have tok: "auth_token example_tag_gone (token_request ''abdelrahmanelbadawy1/web'')
       = Resolved \<lparr>token = Some ''t0k3n''\<rparr>"
    by (simp add: example_tag_gone_def ex_auth_token)
  have bearer: "registry_manifest example_tag_gone
        (manifest_request ''abdelrahmanelbadawy1/web'' ''latest'' (Some ''t0k3n''))
       = Failed (Some 404)"
    by (simp add: example_tag_gone_def manifest_request_def)
  have f: "fetchManifest example_tag_gone ''abdelrahmanelbadawy1/web'' ''latest''
       = (Inl (AxiosError (Some 404)),
          [manifest_request ''abdelrahmanelbadawy1/web'' ''latest'' None,
           token_request ''abdelrahmanelbadawy1/web'',
           manifest_request ''abdelrahmanelbadawy1/web'' ''latest'' (Some ''t0k3n'')])"
    by (simp add: fetchManifest_401_token [OF anon] tok bearer truthy_def)
  have selected: "(None = Some ''latest'' \<and> ''latest'' \<noteq> []
                   \<and> [tags_request ''abdelrahmanelbadawy1/web''] = [])
       \<or> (\<not> truthy None \<and> [''v1'', ''latest''] \<noteq> []
           \<and> ''latest'' = (if ''latest'' \<in> set [''v1'', ''latest''] then ''latest''
                            else hd [''v1'', ''latest''])
           \<and> [tags_request ''abdelrahmanelbadawy1/web'']
               = [tags_request ''abdelrahmanelbadawy1/web''])"
    by (simp add: truthy_def)
  have untagged: "getManifest example_tag_gone ''abdelrahmanelbadawy1/web'' None
       = (Inl (AxiosError (Some 404)),
          [tags_request ''abdelrahmanelbadawy1/web'',
           manifest_request ''abdelrahmanelbadawy1/web'' ''latest'' None,
           token_request ''abdelrahmanelbadawy1/web'',
           manifest_request ''abdelrahmanelbadawy1/web'' ''latest'' (Some ''t0k3n'')])"
    by (simp add: getManifest_runs [OF tags selected] f outcome_def trace_def)
  have tagged: "getManifest example_tag_gone ''abdelrahmanelbadawy1/web'' (Some ''latest'')
       = (Inl (AxiosError (Some 404)),
          [manifest_request ''abdelrahmanelbadawy1/web'' ''latest'' None,
           token_request ''abdelrahmanelbadawy1/web'',
           manifest_request ''abdelrahmanelbadawy1/web'' ''latest'' (Some ''t0k3n'')])"
    by (simp add: getManifest_tagged f)
  from tags anon tok bearer untagged tagged show ?thesis by blast
qed

text \<open>
  The sibling path: when the 404 answers the request without credentials, the error
  names the tag and the repository and lists the tags of the tag listing.
\<close>

lemma tag_not_found_first_attempt:
  assumes listing: "outcome (getRepositoryTags up repo) = Inr available"
    and requested:
      "(tag = Some requested \<and> requested \<noteq> [])
       \<or> (\<not> truthy tag \<and> available \<noteq> []
           \<and> requested = (if ''latest'' \<in> set available then ''latest'' else hd available))"
    and answer: "registry_manifest up (manifest_request repo requested None) = Failed (Some 404)"
  shows
   "outcome (getManifest up repo tag)
      = Inl (Error (''Tag '' @ [CHR 0x27] @ requested @ [CHR 0x27]
                    @ '' not found for repository '' @ repo
                    @ ''. Available tags: '' @ join '', '' available))"
proof -
  have av: "(case hub_tags up (tags_request repo) of Resolved ns \<Rightarrow> ns | Failed st \<Rightarrow> [])
              = available"
    using listing by (simp add: getRepositoryTags_eq outcome_def)
  have f: "outcome (fetchManifest up repo requested)
      = Inl (Error (''Tag '' @ [CHR 0x27] @ requested @ [CHR 0x27]
                    @ '' not found for repository '' @ repo
                    @ ''. Available tags: '' @ join '', '' available))"
    using fetchManifest_404 [OF answer] av by (simp add: outcome_def)
  from requested have "outcome (getManifest up repo tag) = outcome (fetchManifest up repo requested)"
  proof
    assume "tag = Some requested \<and> requested \<noteq> []"
    then show ?thesis by (simp add: getManifest_tagged)
  next
    assume a: "\<not> truthy tag \<and> available \<noteq> []
           \<and> requested = (if ''latest'' \<in> set available then ''latest'' else hd available)"
    then have "selectTag available = requested" by (simp add: selectTag_def)
    with a show ?thesis
      using getManifest_untagged [of tag up repo available] listing by (simp add: outcome_def)
  qed
  with f show ?thesis by simp
qed



end
